theory Spec2Isabelle
  imports Complex_Main
begin

section \<open>Data model of queuectl\<close>

text \<open>
  The program keeps four SQLite tables: \<open>jobs\<close>, \<open>config\<close>, \<open>workers\<close> and
  \<open>control\<close>. Timestamps are written by \<open>utcnow()\<close> as ISO-8601 text with the fixed
  offset \<open>+00:00\<close> and compared by SQLite as text, which orders them as the instants
  they denote; a timestamp is modelled by that instant, in microseconds since the Unix
  epoch (the resolution of Python's \<open>datetime\<close>).
\<close>

type_synonym timestamp = int

text \<open>The \<open>CHECK\<close> constraint of column \<open>jobs.state\<close>.\<close>

datatype job_state = Pending | Processing | Completed | Failed | Dead

text \<open>The \<open>CHECK\<close> constraint of column \<open>workers.status\<close>.\<close>

datatype worker_status = Starting | Idle | Busy | Stopping | Stopped

text \<open>
  What a captured output stream can be in Python: \<open>None\<close>, a \<open>bytes\<close> object or a
  \<open>str\<close>. The columns \<open>stdout\<close> and \<open>stderr\<close> store it as NULL, BLOB or TEXT.
\<close>

datatype captured = NoCapture | Bytes string | Text string

text \<open>
  What the columns \<open>attempts\<close> and \<open>max_retries\<close> can hold. They are declared
  \<open>INTEGER NOT NULL\<close>, but SQLite stores whatever it is given once the column affinity
  has been applied: a 64-bit integer, a float that is not such an integer (finite or
  infinite), or a text that SQLite does not read as a number (\<open>int(...)\<close> may still
  read it, as it reads \<open>1_0\<close>).
\<close>

datatype sqlnum = SqlInt int | SqlReal real | SqlInfinity | SqlText string

text \<open>The integers SQLite stores, and Python's \<open>sqlite3\<close> binds: 64 bits, signed.\<close>

definition sqlite_int :: "int \<Rightarrow> bool" where
  "sqlite_int n \<longleftrightarrow> - 9223372036854775808 \<le> n \<and> n \<le> 9223372036854775807"

text \<open>
  One row of table \<open>jobs\<close>; column \<open>id\<close> is the field \<open>job_id\<close>. The column is declared
  \<open>TEXT PRIMARY KEY\<close>, which in SQLite admits NULL, in any number of rows.
\<close>

record job =
  job_id :: "string option"
  command :: string
  state :: job_state
  attempts :: sqlnum
  max_retries :: sqlnum
  created_at :: timestamp
  updated_at :: timestamp
  last_error :: "string option"
  next_run_at :: "timestamp option"
  locked_by :: "string option"
  locked_at :: "timestamp option"
  priority :: int
  return_code :: "int option"
  stdout :: captured
  stderr :: captured
  duration_ms :: "int option"

text \<open>One row of table \<open>workers\<close>, keyed by \<open>worker_id\<close>.\<close>

record worker =
  started_at :: timestamp
  last_seen_at :: timestamp
  status :: worker_status
  current_job_id :: "string option"

text \<open>
  The database. \<open>jobs\<close> lists the rows of the table; the primary key on \<open>id\<close> is the
  invariant \<open>pk_ok\<close>: no two rows share an id that is not NULL. The other three tables
  are keyed by their primary key.
\<close>

record database =
  jobs :: "job list"
  config :: "string \<rightharpoonup> string"
  workers :: "string \<rightharpoonup> worker"
  control :: "string \<rightharpoonup> string"

definition pk_ok :: "database \<Rightarrow> bool" where
  "pk_ok db \<longleftrightarrow> distinct (List.map_filter job_id (jobs db))"

text \<open>
  The comparison \<open>id=?\<close> of a \<open>WHERE\<close> clause, for the column value \<open>a\<close> and the bound
  parameter \<open>b\<close> (\<open>None\<close> is NULL): it holds of no row when either side is NULL.
\<close>

definition sql_eq :: "string option \<Rightarrow> string option \<Rightarrow> bool" where
  "sql_eq a b \<longleftrightarrow> a \<noteq> None \<and> a = b"

text \<open>\<open>SELECT * FROM jobs WHERE id=?\<close> followed by \<open>fetchone()\<close>.\<close>

definition get_job :: "database \<Rightarrow> string option \<Rightarrow> job option" where
  "get_job db i = find (\<lambda>j. sql_eq (job_id j) i) (jobs db)"

text \<open>\<open>UPDATE jobs SET ... WHERE id=?\<close>: every row with that id is rewritten by \<open>f\<close>.\<close>

definition update_job :: "string option \<Rightarrow> (job \<Rightarrow> job) \<Rightarrow> job list \<Rightarrow> job list" where
  "update_job i f js = map (\<lambda>j. if sql_eq (job_id j) i then f j else j) js"

text \<open>
  The row that \<open>INSERT INTO jobs(id, command, state, attempts, max_retries, created_at,
  updated_at, priority)\<close> creates: the columns not listed are NULL.
\<close>

definition inserted_row ::
  "string option \<Rightarrow> string \<Rightarrow> job_state \<Rightarrow> sqlnum \<Rightarrow> sqlnum \<Rightarrow> timestamp \<Rightarrow> timestamp \<Rightarrow> int
     \<Rightarrow> job" where
  "inserted_row i c s a m ca ua p =
     \<lparr>job_id = i, command = c, state = s, attempts = a, max_retries = m,
      created_at = ca, updated_at = ua, last_error = None, next_run_at = None,
      locked_by = None, locked_at = None, priority = p, return_code = None,
      stdout = NoCapture, stderr = NoCapture, duration_ms = None\<rparr>"

text \<open>
  The exceptions the modelled code can raise. \<open>ProgrammingError\<close> is what \<open>sqlite3\<close>
  raises for a parameter of a type it cannot bind (\<open>InterfaceError\<close> before Python 3.11).
\<close>

datatype error =
    KeyError string
  | ValueError
  | TypeError
  | OverflowError
  | IntegrityError
  | ProgrammingError
  | OSError
  | UnicodeDecodeError
  | SystemExit int

section \<open>Atomic claim: \<open>acquire_job\<close>\<close>

text \<open>\<open>state IN ('pending','failed')\<close>.\<close>

definition claimable :: "job \<Rightarrow> bool" where
  "claimable j \<longleftrightarrow> state j = Pending \<or> state j = Failed"

text \<open>The \<open>WHERE\<close> clause of the selecting query.\<close>

definition eligible :: "timestamp \<Rightarrow> job \<Rightarrow> bool" where
  "eligible now j \<longleftrightarrow>
     claimable j \<and> (case next_run_at j of None \<Rightarrow> True | Some t \<Rightarrow> t \<le> now)"

text \<open>\<open>ORDER BY priority DESC, created_at\<close>: row \<open>a\<close> sorts strictly before row \<open>b\<close>.\<close>

definition precedes :: "job \<Rightarrow> job \<Rightarrow> bool" where
  "precedes a b \<longleftrightarrow>
     priority a > priority b \<or> (priority a = priority b \<and> created_at a < created_at b)"

text \<open>
  \<open>LIMIT 1\<close> of the ordered rows: a row that no other row precedes. Which of several
  rows that tie on both sort keys comes out is left open by SQL and depends on the order
  in which the query plan visits the rows (with the index \<open>idx_jobs_state_next\<close> that is
  not the order of insertion). \<open>first_row\<close> takes the rows in the order they are
  visited and returns the first visited among the best.
\<close>

fun first_row :: "job list \<Rightarrow> job option" where
  "first_row [] = None"
| "first_row (j # js) =
     (case first_row js of
        None \<Rightarrow> Some j
      | Some k \<Rightarrow> if precedes k j then Some k else Some j)"

text \<open>
  The order in which a query plan visits the rows of a table is a parameter \<open>scan\<close> of
  the model; all that is known of it is that it visits the rows of the table.
\<close>

definition visits_all :: "(job list \<Rightarrow> job list) \<Rightarrow> bool" where
  "visits_all scan \<longleftrightarrow> (\<forall>js. set (scan js) = set js)"

text \<open>The \<open>SET\<close> clause of the claiming \<open>UPDATE\<close>.\<close>

definition claimed :: "string \<Rightarrow> timestamp \<Rightarrow> job \<Rightarrow> job" where
  "claimed worker_id now j =
     j\<lparr>state := Processing, locked_by := Some worker_id,
       locked_at := Some now, updated_at := now\<rparr>"

text \<open>
  The number of rows the claiming \<open>UPDATE ... WHERE id=? AND state IN
  ('pending','failed')\<close> changes for the id \<open>i\<close> of the selected row: none when that
  id is NULL.
\<close>

definition claim_rowcount :: "database \<Rightarrow> string option \<Rightarrow> nat" where
  "claim_rowcount db i = length (filter (\<lambda>j. sql_eq (job_id j) i \<and> claimable j) (jobs db))"

text \<open>
  \<open>acquire_job(conn, worker_id)\<close>, with the scan order of the selecting query and the
  reading \<open>now\<close> of the clock as parameters.
  The whole body runs inside \<open>BEGIN IMMEDIATE\<close> ... \<open>COMMIT\<close>/\<open>ROLLBACK\<close>, so it is one
  atomic step on the database. The result is the returned dictionary (or \<open>None\<close>)
  and the database afterwards: the database itself after \<open>ROLLBACK\<close> and after the
  \<open>COMMIT\<close> of the empty selection. The final \<open>SELECT *\<close> finds a row whenever the
  \<open>UPDATE\<close> changed one, so \<open>dict(job)\<close> does not raise.
  A \<open>BEGIN IMMEDIATE\<close> that cannot get the write lock within the connection's timeout
  raises before anything is read or written; such a call takes no part in the order of
  the calls and is left out.
\<close>

definition acquire_job ::
  "(job list \<Rightarrow> job list) \<Rightarrow> database \<Rightarrow> string \<Rightarrow> timestamp \<Rightarrow> job option \<times> database" where
  "acquire_job scan db worker_id now =
     (case first_row (filter (eligible now) (scan (jobs db))) of
        None \<Rightarrow> (None, db)
      | Some row \<Rightarrow>
          let i = job_id row;
              rowcount = claim_rowcount db i;
              jobs' = map (\<lambda>j. if sql_eq (job_id j) i \<and> claimable j
                                then claimed worker_id now j else j) (jobs db)
          in if rowcount \<noteq> 1 then (None, db)
             else (find (\<lambda>j. sql_eq (job_id j) i) jobs', db\<lparr>jobs := jobs'\<rparr>))"

text \<open>The job with id \<open>i\<close> exists and is in state processing.\<close>

definition is_processing :: "database \<Rightarrow> string option \<Rightarrow> bool" where
  "is_processing db i =
     (case get_job db i of None \<Rightarrow> False | Some r \<Rightarrow> state r = Processing)"

text \<open>
  Several workers claiming against one database: SQLite admits one write transaction at
  a time, so the calls take effect one after the other in some order. \<open>claim_all\<close> runs
  the calls \<open>(worker_id, now)\<close> in the order given and collects what each returns.
\<close>

fun claim_all ::
  "(job list \<Rightarrow> job list) \<Rightarrow> database \<Rightarrow> (string \<times> timestamp) list
     \<Rightarrow> job option list \<times> database" where
  "claim_all scan db [] = ([], db)"
| "claim_all scan db (c # cs) =
     (let (r, db1) = acquire_job scan db (fst c) (snd c);
          (rs, db2) = claim_all scan db1 cs
      in (r # rs, db2))"

text \<open>The ids of the jobs a list of claim results handed out.\<close>

fun returned_ids :: "job option list \<Rightarrow> string option list" where
  "returned_ids [] = []"
| "returned_ids (None # rs) = returned_ids rs"
| "returned_ids (Some j # rs) = job_id j # returned_ids rs"

section \<open>Python built-ins used by the worker\<close>

text \<open>\<open>str(n)\<close> for an integer, as the f-strings of \<open>run_job\<close> render it.\<close>

definition digit_char :: "nat \<Rightarrow> char" where
  "digit_char d = ''0123456789'' ! d"

function str_nat :: "nat \<Rightarrow> string" where
  "str_nat n = (if n < 10 then [digit_char n] else str_nat (n div 10) @ [digit_char (n mod 10)])"
  by pat_completeness auto
termination
  by (relation "measure (\<lambda>n. n)") auto

definition str_int :: "int \<Rightarrow> string" where
  "str_int i = (if i < 0 then CHR ''-'' # str_nat (nat (- i)) else str_nat (nat i))"

text \<open>
  \<open>int(s)\<close> for a string of ASCII characters: surrounding white space (space, tab, line
  feed, vertical tab, form feed, carriage return) is dropped, then come an optional sign
  and decimal digits, where single underscores may separate digits; anything else, and
  a text of more than 4300 digits, raises \<open>ValueError\<close> (the result \<open>None\<close>). A text
  with a character outside ASCII is outside the model.
\<close>

definition is_space :: "char \<Rightarrow> bool" where
  "is_space c \<longleftrightarrow> c \<in> set [CHR '' '', CHR 0x09, CHR 0x0A, CHR 0x0B, CHR 0x0C, CHR 0x0D]"

definition strip :: "string \<Rightarrow> string" where
  "strip s = rev (dropWhile is_space (rev (dropWhile is_space s)))"

definition digit_val :: "char \<Rightarrow> nat option" where
  "digit_val c = map_of (zip ''0123456789'' [0, 1, 2, 3, 4, 5, 6, 7, 8, 9]) c"

fun parse_digits :: "nat \<Rightarrow> string \<Rightarrow> nat option" where
  "parse_digits acc [] = Some acc"
| "parse_digits acc [c] =
     (case digit_val c of None \<Rightarrow> None | Some v \<Rightarrow> Some (10 * acc + v))"
| "parse_digits acc (c # d # ds) =
     (if c = CHR ''_''
      then (case digit_val d of None \<Rightarrow> None | Some v \<Rightarrow> parse_digits (10 * acc + v) ds)
      else (case digit_val c of None \<Rightarrow> None | Some v \<Rightarrow> parse_digits (10 * acc + v) (d # ds)))"

definition int_of_str :: "string \<Rightarrow> int option" where
  "int_of_str s =
     (let t = strip s;
          neg = (case t of [] \<Rightarrow> False | c # _ \<Rightarrow> c = CHR ''-'');
          u = (case t of [] \<Rightarrow> [] | c # r \<Rightarrow> if c = CHR ''-'' \<or> c = CHR ''+'' then r else t)
      in if length (filter (\<lambda>c. digit_val c \<noteq> None) u) > 4300 then None
         else
           (case u of
              [] \<Rightarrow> None
            | d # ds \<Rightarrow>
                (case digit_val d of
                   None \<Rightarrow> None
                 | Some v \<Rightarrow>
                     map_option (\<lambda>n. if neg then - int n else int n) (parse_digits v ds))))"

text \<open>
  A value as \<open>compute_backoff\<close> can meet it in its parameter \<open>base\<close>, and \<open>int(x)\<close> on
  it: \<open>int(None)\<close> raises \<open>TypeError\<close>.
\<close>

datatype pyval = PyInt int | PyStr string | PyNone

definition py_int :: "pyval \<Rightarrow> error + int" where
  "py_int x =
     (case x of
        PyInt n \<Rightarrow> Inr n
      | PyStr s \<Rightarrow> (case int_of_str s of None \<Rightarrow> Inl ValueError | Some n \<Rightarrow> Inr n)
      | PyNone \<Rightarrow> Inl TypeError)"

text \<open>
  \<open>int(x)\<close> for what a query returns from the columns \<open>attempts\<close> and \<open>max_retries\<close>: an
  \<open>int\<close>, a \<open>float\<close> (cut towards zero; \<open>OverflowError\<close> when infinite) or a \<open>str\<close>.
\<close>

definition int_of_cell :: "sqlnum \<Rightarrow> error + int" where
  "int_of_cell x =
     (case x of
        SqlInt n \<Rightarrow> Inr n
      | SqlReal r \<Rightarrow> Inr (if 0 \<le> r then \<lfloor>r\<rfloor> else \<lceil>r\<rceil>)
      | SqlInfinity \<Rightarrow> Inl OverflowError
      | SqlText s \<Rightarrow> py_int (PyStr s))"

text \<open>
  \<open>datetime\<close> covers the years 1 to 9999 and \<open>timedelta\<close> at most 999999999 days either
  way; leaving either range raises \<open>OverflowError\<close>. Instants and durations are in
  microseconds.
\<close>

definition datetime_min :: timestamp where
  "datetime_min = - 62135596800000000"

definition datetime_max :: timestamp where
  "datetime_max = 253402300799999999"

definition timedelta_seconds :: "int \<Rightarrow> int option" where
  "timedelta_seconds s =
     (if - 999999999 \<le> s div 86400 \<and> s div 86400 \<le> 999999999
      then Some (s * 1000000) else None)"

definition datetime_add :: "timestamp \<Rightarrow> int \<Rightarrow> timestamp option" where
  "datetime_add t d =
     (if datetime_min \<le> t + d \<and> t + d \<le> datetime_max then Some (t + d) else None)"

text \<open>\<open>dt.datetime.utcnow() + dt.timedelta(seconds=delay)\<close>, with \<open>t\<close> the clock reading.\<close>

definition utcnow_plus_seconds :: "timestamp \<Rightarrow> int \<Rightarrow> error + timestamp" where
  "utcnow_plus_seconds t delay =
     (case timedelta_seconds delay of
        None \<Rightarrow> Inl OverflowError
      | Some d \<Rightarrow> (case datetime_add t d of None \<Rightarrow> Inl OverflowError | Some r \<Rightarrow> Inr r))"

section \<open>Configuration and schema\<close>

text \<open>\<open>get_config\<close>: the value of a key, \<open>KeyError\<close> when the key has no row.\<close>

definition get_config :: "database \<Rightarrow> string \<Rightarrow> error + string" where
  "get_config db key = (case config db key of None \<Rightarrow> Inl (KeyError key) | Some v \<Rightarrow> Inr v)"

text \<open>\<open>set_config\<close>: insert the key or overwrite its value.\<close>

definition set_config :: "database \<Rightarrow> string \<Rightarrow> string \<Rightarrow> database" where
  "set_config db key v = db\<lparr>config := (config db)(key \<mapsto> v)\<rparr>"

text \<open>\<open>INSERT OR IGNORE\<close> into a table keyed by its first column.\<close>

definition insert_or_ignore :: "(string \<rightharpoonup> string) \<Rightarrow> string \<Rightarrow> string \<Rightarrow> (string \<rightharpoonup> string)" where
  "insert_or_ignore m k v = (case m k of None \<Rightarrow> m(k \<mapsto> v) | Some _ \<Rightarrow> m)"

text \<open>
  \<open>ensure_db\<close>: the tables exist in every database of the model, so what remains is the
  default rows of \<open>config\<close> and \<open>control\<close>.
\<close>

definition ensure_db :: "database \<Rightarrow> database" where
  "ensure_db db =
     db\<lparr>config :=
          insert_or_ignore
            (insert_or_ignore
               (insert_or_ignore (config db) ''backoff_base'' ''2'')
               ''max_retries_default'' ''3'')
            ''job_timeout_sec'' ''0'',
        control := insert_or_ignore (control db) ''shutdown'' ''0''\<rparr>"

section \<open>Backoff policy: \<open>compute_backoff\<close>\<close>

text \<open>
  \<open>int(base) ** int(max(attempts,0))\<close>, and \<open>2 ** int(max(attempts,0))\<close> when \<open>int(base)\<close>
  raises. The exponent is never negative, so the power is an integer; Python's integers
  are unbounded, and the power is taken to fit the memory of the machine. The parameter
  \<open>attempts\<close> is \<open>n_attempts\<close> here.
\<close>

definition compute_backoff :: "pyval \<Rightarrow> int \<Rightarrow> int" where
  "compute_backoff base n_attempts =
     (case py_int base of
        Inr b \<Rightarrow> b ^ nat (max n_attempts 0)
      | Inl _ \<Rightarrow> 2 ^ nat (max n_attempts 0))"

section \<open>Running one job: \<open>run_job\<close>\<close>

text \<open>
  What \<open>subprocess.run(command, shell=True, capture_output=True, text=True,
  timeout=...)\<close> can do: return a completed process (return code, and both streams as
  \<open>str\<close>), raise \<open>TimeoutExpired\<close> (whose \<open>stdout\<close> and \<open>stderr\<close> attributes are \<open>None\<close>
  when nothing was read, and otherwise the \<open>bytes\<close> read so far on POSIX and the decoded
  \<open>str\<close> on Windows), or raise another exception, for instance \<open>ValueError\<close> for a
  command with an embedded null character, \<open>UnicodeDecodeError\<close> for output that is not
  valid text, \<open>OSError\<close> when the shell cannot be started.
\<close>

datatype run_outcome =
    Exited int string string
  | TimeoutExpired captured captured
  | Raised error

text \<open>
  What one call of \<open>run_job\<close> reads from outside the database: the clock at its four
  calls of \<open>utcnow()\<close>, the operating system running the command (given the command and
  the timeout), and the measured duration.
\<close>

record run_env =
  t_busy :: timestamp
  sh :: "string \<Rightarrow> int option \<Rightarrow> run_outcome"
  elapsed_ms :: int
  t_done :: timestamp
  t_retry :: timestamp
  t_idle :: timestamp

text \<open>\<open>UPDATE workers SET ... WHERE worker_id=?\<close>.\<close>

definition update_worker :: "string \<Rightarrow> (worker \<Rightarrow> worker) \<Rightarrow> (string \<rightharpoonup> worker) \<Rightarrow> (string \<rightharpoonup> worker)" where
  "update_worker wid f ws = (case ws wid of None \<Rightarrow> ws | Some w \<Rightarrow> ws(wid \<mapsto> f w))"

text \<open>\<open>x or ""\<close> and \<open>x + s\<close> for a captured stream \<open>x\<close> and a \<open>str\<close> \<open>s\<close>.\<close>

definition or_empty :: "captured \<Rightarrow> captured" where
  "or_empty x =
     (case x of
        NoCapture \<Rightarrow> Text []
      | Bytes b \<Rightarrow> if b = [] then Text [] else Bytes b
      | Text t \<Rightarrow> Text t)"

definition add_str :: "captured \<Rightarrow> string \<Rightarrow> error + captured" where
  "add_str x s =
     (case x of
        NoCapture \<Rightarrow> Inl TypeError
      | Bytes b \<Rightarrow> Inl TypeError
      | Text t \<Rightarrow> Inr (Text (t @ s)))"

text \<open>
  The execution step of \<open>run_job\<close> (the \<open>try\<close> around \<open>subprocess.run\<close>): the return
  code, \<open>stdout\<close> and \<open>stderr\<close> it binds, or the exception that leaves it. Only
  \<open>TimeoutExpired\<close> is caught.
\<close>

definition execute :: "run_env \<Rightarrow> string \<Rightarrow> int \<Rightarrow> error + (int \<times> captured \<times> captured)" where
  "execute env cmd job_timeout =
     (case sh env cmd (if job_timeout = 0 then None else Some job_timeout) of
        Exited rc out err \<Rightarrow> Inr (rc, Text out, Text err)
      | TimeoutExpired eout eerr \<Rightarrow>
          (case add_str (or_empty eerr) (''TIMEOUT after '' @ str_int job_timeout @ ''s'') of
             Inl e \<Rightarrow> Inl e
           | Inr err \<Rightarrow> Inr (- 1, or_empty eout, err))
      | Raised e \<Rightarrow> Inl e)"

text \<open>
  Binding the integer parameters of a statement: \<open>sqlite3\<close> raises \<open>OverflowError\<close>, before
  the statement runs, when one of them does not fit 64 bits.
\<close>

definition binds :: "int list \<Rightarrow> bool" where
  "binds ns \<longleftrightarrow> list_all sqlite_int ns"

text \<open>The three \<open>UPDATE jobs SET ...\<close> of \<open>run_job\<close>, as the new value of the row.\<close>

definition set_completed :: "int \<Rightarrow> captured \<Rightarrow> captured \<Rightarrow> int \<Rightarrow> timestamp \<Rightarrow> job \<Rightarrow> job" where
  "set_completed rc out err d now2 j =
     j\<lparr>state := Completed, return_code := Some rc, stdout := out, stderr := err,
       duration_ms := Some d, updated_at := now2, locked_by := None, locked_at := None\<rparr>"

definition set_dead :: "int \<Rightarrow> int \<Rightarrow> captured \<Rightarrow> captured \<Rightarrow> int \<Rightarrow> timestamp \<Rightarrow> job \<Rightarrow> job" where
  "set_dead att rc out err d now2 j =
     j\<lparr>state := Dead, attempts := SqlInt att,
       last_error := Some (''Exit code '' @ str_int rc),
       return_code := Some rc, stdout := out, stderr := err, duration_ms := Some d,
       updated_at := now2, locked_by := None, locked_at := None\<rparr>"

definition set_failed ::
  "int \<Rightarrow> int \<Rightarrow> captured \<Rightarrow> captured \<Rightarrow> int \<Rightarrow> timestamp \<Rightarrow> timestamp \<Rightarrow> job \<Rightarrow> job" where
  "set_failed att rc out err d next_run now2 j =
     j\<lparr>state := Failed, attempts := SqlInt att,
       last_error := Some (''Exit code '' @ str_int rc),
       return_code := Some rc, stdout := out, stderr := err, duration_ms := Some d,
       next_run_at := Some next_run, updated_at := now2, locked_by := None, locked_at := None\<rparr>"

text \<open>
  The completion step of \<open>run_job\<close> (from \<open>now2 = utcnow()\<close> to the last \<open>UPDATE jobs\<close>),
  for the job id \<open>i\<close>, the configured base and the outcome of the execution step. On the
  failure path \<open>cur[0]\<close> raises \<open>TypeError\<close> when the job has no row, and \<open>int(cur[0])\<close>
  and \<open>int(cur[1])\<close> raise when the column does not hold a number.
\<close>

definition complete ::
  "run_env \<Rightarrow> database \<Rightarrow> string option \<Rightarrow> int \<Rightarrow> int \<Rightarrow> captured \<Rightarrow> captured
     \<Rightarrow> (error + unit) \<times> database" where
  "complete env db i backoff_base rc out err =
     (if rc = 0
      then
        (if binds [rc, elapsed_ms env]
         then (Inr (), db\<lparr>jobs := update_job i
                           (set_completed rc out err (elapsed_ms env) (t_done env)) (jobs db)\<rparr>)
         else (Inl OverflowError, db))
      else
        (case get_job db i of
           None \<Rightarrow> (Inl TypeError, db)
         | Some cur \<Rightarrow>
        (case int_of_cell (attempts cur) of
           Inl e \<Rightarrow> (Inl e, db)
         | Inr a \<Rightarrow>
        (case int_of_cell (max_retries cur) of
           Inl e \<Rightarrow> (Inl e, db)
         | Inr mr \<Rightarrow>
             let att = a + 1
             in if att > mr
                then
                  (if binds [att, rc, elapsed_ms env]
                   then (Inr (), db\<lparr>jobs := update_job i
                                     (set_dead att rc out err (elapsed_ms env) (t_done env))
                                     (jobs db)\<rparr>)
                   else (Inl OverflowError, db))
                else
                  let delay = compute_backoff (PyInt backoff_base) att
                  in (case utcnow_plus_seconds (t_retry env) delay of
                        Inl e \<Rightarrow> (Inl e, db)
                      | Inr next_run \<Rightarrow>
                          if binds [att, rc, elapsed_ms env]
                          then (Inr (), db\<lparr>jobs := update_job i
                                     (set_failed att rc out err (elapsed_ms env) next_run (t_done env))
                                     (jobs db)\<rparr>)
                          else (Inl OverflowError, db))))))"

text \<open>
  \<open>run_job(conn, worker_id, job)\<close>. The connection is in autocommit mode, so every
  statement that ran before an exception stays written: the database returned with an
  error is the one the exception leaves behind.
\<close>

definition run_job :: "run_env \<Rightarrow> database \<Rightarrow> string \<Rightarrow> job \<Rightarrow> (error + unit) \<times> database" where
  "run_job env db worker_id job =
     (let db1 = db\<lparr>workers := update_worker worker_id
                   (\<lambda>w. w\<lparr>status := Busy, current_job_id := job_id job,
                          last_seen_at := t_busy env\<rparr>) (workers db)\<rparr>
      in case get_config db1 ''backoff_base'' of
           Inl e \<Rightarrow> (Inl e, db1)
         | Inr v1 \<Rightarrow>
        (case py_int (PyStr v1) of
           Inl e \<Rightarrow> (Inl e, db1)
         | Inr backoff_base \<Rightarrow>
        (case get_config db1 ''job_timeout_sec'' of
           Inl e \<Rightarrow> (Inl e, db1)
         | Inr v2 \<Rightarrow>
        (case py_int (PyStr v2) of
           Inl e \<Rightarrow> (Inl e, db1)
         | Inr job_timeout \<Rightarrow>
        (case execute env (command job) job_timeout of
           Inl e \<Rightarrow> (Inl e, db1)
         | Inr (rc, out, err) \<Rightarrow>
        (case complete env db1 (job_id job) backoff_base rc out err of
           (Inl e, db2) \<Rightarrow> (Inl e, db2)
         | (Inr u, db2) \<Rightarrow>
             (Inr (), db2\<lparr>workers := update_worker worker_id
                          (\<lambda>w. w\<lparr>status := Idle, current_job_id := None,
                                 last_seen_at := t_idle env\<rparr>) (workers db2)\<rparr>)))))))"

section \<open>Front-end operations\<close>

text \<open>The \<open>SET\<close> clause of the requeueing \<open>UPDATE\<close>.\<close>

definition set_requeued :: "timestamp \<Rightarrow> job \<Rightarrow> job" where
  "set_requeued now j =
     j\<lparr>state := Pending, attempts := SqlInt 0, next_run_at := None, last_error := None,
       updated_at := now\<rparr>"

text \<open>
  \<open>dlq_retry(job_id)\<close>: when no row has that id and state dead it prints
  \<open>Job <id> not found in DLQ.\<close> and leaves through \<open>sys.exit(1)\<close>.
\<close>

definition dlq_retry :: "database \<Rightarrow> timestamp \<Rightarrow> string \<Rightarrow> (error + unit) \<times> database" where
  "dlq_retry db now i =
     (let db0 = ensure_db db
      in case find (\<lambda>j. sql_eq (job_id j) (Some i) \<and> state j = Dead) (jobs db0) of
           None \<Rightarrow> (Inl (SystemExit 1), db0)
         | Some _ \<Rightarrow> (Inr (), db0\<lparr>jobs := update_job (Some i) (set_requeued now) (jobs db0)\<rparr>))"

text \<open>
  One key of the object that \<open>json.loads(job_json)\<close> yields: the key is absent, or its
  value is \<open>null\<close> (as is a NaN, which SQLite stores as NULL), or a value \<open>v\<close>, or an
  integer outside 64 bits, which \<open>sqlite3\<close> refuses to bind with \<open>OverflowError\<close>, or an
  array or object, which it refuses with \<open>ProgrammingError\<close>. A value is given as its
  column reads it: a number offered to a column of affinity \<open>TEXT\<close> as its text, and a
  text offered to a column of affinity \<open>INTEGER\<close> as the number SQLite reads from it,
  when it reads one.
\<close>

datatype 'a jfield = Absent | Null | Val 'a | TooLarge | Unsupported

text \<open>
  The object by the keys \<open>enqueue_job\<close> reads. A text that is not a JSON object makes
  \<open>enqueue_job\<close> raise before it opens the database for the \<open>INSERT\<close>.
\<close>

record job_json =
  j_id :: "string jfield"
  j_command :: "string jfield"
  j_state :: "string jfield"
  j_attempts :: "sqlnum jfield"
  j_max_retries :: "sqlnum jfield"
  j_created_at :: "timestamp jfield"
  j_updated_at :: "timestamp jfield"

text \<open>The values the \<open>CHECK\<close> constraint on \<open>jobs.state\<close> admits.\<close>

definition state_of_string :: "string \<Rightarrow> job_state option" where
  "state_of_string t =
     (if t = ''pending'' then Some Pending
      else if t = ''processing'' then Some Processing
      else if t = ''completed'' then Some Completed
      else if t = ''failed'' then Some Failed
      else if t = ''dead'' then Some Dead
      else None)"

text \<open>
  \<open>job.setdefault(key, default)\<close> followed by reading the key: a key that is present
  keeps its value, also when that is \<open>null\<close>.
\<close>

definition setdefault :: "'a jfield \<Rightarrow> 'a \<Rightarrow> 'a jfield" where
  "setdefault x d = (case x of Absent \<Rightarrow> Val d | _ \<Rightarrow> x)"

text \<open>Binding one parameter: the exception it raises, if any.\<close>

definition bind_error :: "'a jfield \<Rightarrow> error option" where
  "bind_error x =
     (case x of TooLarge \<Rightarrow> Some OverflowError | Unsupported \<Rightarrow> Some ProgrammingError | _ \<Rightarrow> None)"

definition bind_num :: "sqlnum jfield \<Rightarrow> error option" where
  "bind_num x =
     (case x of
        Val (SqlInt n) \<Rightarrow> if sqlite_int n then None else Some OverflowError
      | _ \<Rightarrow> bind_error x)"

text \<open>Parameters are bound in order; the first that fails raises.\<close>

fun first_error :: "error option list \<Rightarrow> error option" where
  "first_error [] = None"
| "first_error (None # es) = first_error es"
| "first_error (Some e # es) = Some e"

text \<open>What a bound parameter stores: \<open>None\<close> is NULL.\<close>

definition stored :: "'a jfield \<Rightarrow> 'a option" where
  "stored x = (case x of Val v \<Rightarrow> Some v | _ \<Rightarrow> None)"

text \<open>
  Column affinity \<open>INTEGER\<close>: a float that is an integer strictly between the least
  and the greatest integer of 64 bits is stored as that integer.
\<close>

definition affinity_integer :: "sqlnum \<Rightarrow> sqlnum" where
  "affinity_integer x =
     (case x of
        SqlReal r \<Rightarrow>
          if r = of_int \<lfloor>r\<rfloor> \<and> - 9223372036854775808 < \<lfloor>r\<rfloor> \<and> \<lfloor>r\<rfloor> < 9223372036854775807
          then SqlInt \<lfloor>r\<rfloor> else SqlReal r
      | _ \<Rightarrow> x)"

text \<open>
  The \<open>INSERT\<close> of \<open>enqueue_job\<close> once its parameters are bound: the \<open>NOT NULL\<close> and
  \<open>CHECK\<close> constraints and the uniqueness of an id that is not NULL, each of which
  raises \<open>IntegrityError\<close>.
\<close>

definition insert_job ::
  "database \<Rightarrow> string option \<Rightarrow> string option \<Rightarrow> string option \<Rightarrow> sqlnum option \<Rightarrow> sqlnum option
     \<Rightarrow> timestamp option \<Rightarrow> timestamp option \<Rightarrow> int \<Rightarrow> (error + string option) \<times> database" where
  "insert_job db i cmd st att mr ca ua prio =
     (case cmd of None \<Rightarrow> (Inl IntegrityError, db) | Some c \<Rightarrow>
     (case Option.bind st state_of_string of None \<Rightarrow> (Inl IntegrityError, db) | Some s \<Rightarrow>
     (case att of None \<Rightarrow> (Inl IntegrityError, db) | Some a \<Rightarrow>
     (case mr of None \<Rightarrow> (Inl IntegrityError, db) | Some m \<Rightarrow>
     (case ca of None \<Rightarrow> (Inl IntegrityError, db) | Some t1 \<Rightarrow>
     (case ua of None \<Rightarrow> (Inl IntegrityError, db) | Some t2 \<Rightarrow>
        if (case i of None \<Rightarrow> False | Some k \<Rightarrow> k \<in> set (List.map_filter job_id (jobs db)))
        then (Inl IntegrityError, db)
        else (Inr i,
              db\<lparr>jobs := jobs db @ [inserted_row i c s (affinity_integer a) (affinity_integer m)
                                       t1 t2 prio]\<rparr>)))))))"

text \<open>
  \<open>enqueue_job(job_json, priority)\<close>, with the clock reading and the fresh UUID as
  parameters. \<open>job["command"]\<close> raises \<open>KeyError\<close> when the key is absent. The result is
  the id it prints (\<open>None\<close> for a NULL id).
\<close>

definition enqueue_job ::
  "database \<Rightarrow> job_json \<Rightarrow> int \<Rightarrow> timestamp \<Rightarrow> string \<Rightarrow> (error + string option) \<times> database" where
  "enqueue_job db job prio now uuid =
     (let db0 = ensure_db db;
          i = setdefault (j_id job) uuid;
          st = setdefault (j_state job) ''pending'';
          att = setdefault (j_attempts job) (SqlInt 0);
          mr = setdefault (j_max_retries job) (SqlInt 3);
          ca = setdefault (j_created_at job) now;
          ua = setdefault (j_updated_at job) now
      in if j_command job = Absent then (Inl (KeyError ''command''), db0)
         else
           (case first_error
                   [bind_error i, bind_error (j_command job), bind_error st, bind_num att,
                    bind_num mr, bind_error ca, bind_error ua,
                    if sqlite_int prio then None else Some OverflowError] of
              Some e \<Rightarrow> (Inl e, db0)
            | None \<Rightarrow>
                insert_job db0 (stored i) (stored (j_command job)) (stored st) (stored att)
                  (stored mr) (stored ca) (stored ua) prio))"

text \<open>\<open>UPDATE control SET value=? WHERE key=?\<close>.\<close>

definition update_control :: "string \<Rightarrow> string \<Rightarrow> (string \<rightharpoonup> string) \<Rightarrow> (string \<rightharpoonup> string)" where
  "update_control k v m = (case m k of None \<Rightarrow> m | Some _ \<Rightarrow> m(k \<mapsto> v))"

text \<open>
  What \<open>spawn_workers\<close> and \<open>stop_workers\<close> do besides returning, in program order: a
  write to table \<open>control\<close>, the start of a worker process with the given id, the
  writing of a pid file, a \<open>SIGTERM\<close> sent to a pid.
\<close>

datatype effect =
    SetControl string string
  | Spawn string
  | WriteFile string
  | Kill nat

text \<open>The worker id \<open>f"{os.getpid()}-{i}-{uuid.uuid4().hex[:8]}"\<close>.\<close>

definition worker_id_of :: "nat \<Rightarrow> (nat \<Rightarrow> string) \<Rightarrow> nat \<Rightarrow> string" where
  "worker_id_of pid hex i = str_nat pid @ ''-'' @ str_nat i @ ''-'' @ hex i"

text \<open>
  \<open>spawn_workers(count)\<close>, with the process id and the UUID prefix of each round as
  parameters: the effects in program order and the database afterwards.
  \<open>range(count)\<close> is empty for a count below 1. Starting a process and writing the
  pid files are taken to succeed.
\<close>

definition spawn_workers ::
  "nat \<Rightarrow> (nat \<Rightarrow> string) \<Rightarrow> database \<Rightarrow> int \<Rightarrow> effect list \<times> database" where
  "spawn_workers pid hex db count =
     (let db0 = ensure_db db;
          db1 = db0\<lparr>control := update_control ''shutdown'' ''0'' (control db0)\<rparr>
      in (SetControl ''shutdown'' ''0''
            # map (\<lambda>i. Spawn (worker_id_of pid hex i)) [0 ..< nat count]
            @ [WriteFile ''.workers.supervisor.pid'', WriteFile ''.workers.pids''],
          db1))"

text \<open>
  \<open>stop_workers()\<close>, with the pids read from the file \<open>.workers.pids\<close> as a parameter
  (none when the file is missing); a failing \<open>os.kill\<close> is suppressed.
\<close>

definition stop_workers :: "nat list \<Rightarrow> database \<Rightarrow> effect list \<times> database" where
  "stop_workers pids db =
     (let db0 = ensure_db db;
          db1 = db0\<lparr>control := update_control ''shutdown'' ''1'' (control db0)\<rparr>
      in (SetControl ''shutdown'' ''1'' # map Kill pids, db1))"

text \<open>
  The commands of the command line, and what \<open>main\<close> does to the database for each of
  them. \<open>main\<close> calls \<open>ensure_db\<close> and then the function of the command; \<open>status\<close>,
  \<open>list\<close>, \<open>dlq list\<close> and \<open>config get\<close> call \<open>ensure_db\<close> and then only \<open>SELECT\<close>.
\<close>

datatype cli =
    Enqueue job_json int
  | WorkerStart int
  | WorkerStop
  | Status
  | ListJobs "string option" int
  | DlqList int
  | DlqRetry string
  | ConfigSet string string
  | ConfigGet "string option"

text \<open>What \<open>main\<close> reads from outside the database.\<close>

record cli_env =
  clock :: timestamp
  new_uuid :: string
  own_pid :: nat
  uuid_hex :: "nat \<Rightarrow> string"
  pid_file :: "nat list"

fun main_db :: "cli_env \<Rightarrow> database \<Rightarrow> cli \<Rightarrow> database" where
  "main_db e db (Enqueue job prio) = snd (enqueue_job (ensure_db db) job prio (clock e) (new_uuid e))"
| "main_db e db (WorkerStart count) = snd (spawn_workers (own_pid e) (uuid_hex e) (ensure_db db) count)"
| "main_db e db WorkerStop = snd (stop_workers (pid_file e) (ensure_db db))"
| "main_db e db Status = ensure_db (ensure_db db)"
| "main_db e db (ListJobs st limit) = ensure_db (ensure_db db)"
| "main_db e db (DlqList limit) = ensure_db (ensure_db db)"
| "main_db e db (DlqRetry i) = snd (dlq_retry (ensure_db db) (clock e) i)"
| "main_db e db (ConfigSet k v) = set_config (ensure_db db) k v"
| "main_db e db (ConfigGet k) = ensure_db (ensure_db db)"

section \<open>Example data\<close>

text \<open>The scan that visits the rows in the order of the list.\<close>

definition in_order :: "job list \<Rightarrow> job list" where
  "in_order js = js"

text \<open>A database of two pending jobs.\<close>

definition two_jobs :: database where
  "two_jobs =
     \<lparr>jobs = [inserted_row (Some ''a'') ''echo a'' Pending (SqlInt 0) (SqlInt 3) 1 1 0,
              inserted_row (Some ''b'') ''echo b'' Pending (SqlInt 0) (SqlInt 3) 2 2 5],
      config = Map.empty, workers = Map.empty, control = Map.empty\<rparr>"


text \<open>
  Job \<open>a\<close> with the given \<open>attempts\<close> and \<open>max_retries\<close>, as claimed by worker \<open>w1\<close>, and a
  database as \<open>ensure_db\<close> initialises it that holds this job, with the given
  \<open>backoff_base\<close>.
\<close>

definition held_job :: "sqlnum \<Rightarrow> int \<Rightarrow> job" where
  "held_job att mr =
     claimed ''w1'' 1790000000000000
       (inserted_row (Some ''a'') ''exit 1'' Pending att (SqlInt mr)
          1790000000000000 1790000000000000 0)"

definition one_held :: "string \<Rightarrow> sqlnum \<Rightarrow> int \<Rightarrow> database" where
  "one_held base att mr =
     \<lparr>jobs = [held_job att mr],
      config = [''backoff_base'' \<mapsto> base, ''max_retries_default'' \<mapsto> ''3'',
                ''job_timeout_sec'' \<mapsto> ''0''],
      workers = [''w1'' \<mapsto> \<lparr>started_at = 1790000000000000, last_seen_at = 1790000000000000,
                            status = Idle, current_job_id = None\<rparr>],
      control = [''shutdown'' \<mapsto> ''0'']\<rparr>"

text \<open>An environment in which the command has the given outcome.\<close>

definition env_of :: "run_outcome \<Rightarrow> run_env" where
  "env_of oc =
     \<lparr>t_busy = 1790000000000001, sh = (\<lambda>cmd timeout. oc), elapsed_ms = 12,
      t_done = 1790000000012000, t_retry = 1790000000012001, t_idle = 1790000000012002\<rparr>"

text \<open>A database whose only job \<open>a\<close> is dead after one failed attempt, and an empty one.\<close>

definition one_dead :: database where
  "one_dead =
     \<lparr>jobs = [(inserted_row (Some ''a'') ''exit 1'' Dead (SqlInt 1) (SqlInt 0)
                  1790000000000000 1790000000012000 0)
                 \<lparr>last_error := Some ''Exit code 1''\<rparr>],
      config = Map.empty, workers = Map.empty, control = Map.empty\<rparr>"

definition empty_db :: database where
  "empty_db = \<lparr>jobs = [], config = Map.empty, workers = Map.empty, control = Map.empty\<rparr>"

text \<open>An environment of the command line.\<close>

definition cli_env0 :: cli_env where
  "cli_env0 =
     \<lparr>clock = 1790000000000000, new_uuid = ''0b9f1c2e-5d1a-4c1e-9a57-3f0e6c2d8a41'',
      own_pid = 4242, uuid_hex = (\<lambda>i. ''0b9f1c2e''), pid_file = []\<rparr>"

text \<open>A submitted job object that names its own state.\<close>

definition done_json :: job_json where
  "done_json = \<lparr>j_id = Val ''x'', j_command = Val ''true'', j_state = Val ''completed'',
      j_attempts = Absent, j_max_retries = Absent, j_created_at = Absent,
      j_updated_at = Absent\<rparr>"

section \<open>Helper lemmas\<close>

lemma sql_eq_Some [simp]: "sql_eq a (Some i) \<longleftrightarrow> a = Some i"
  unfolding sql_eq_def by blast

lemma sql_eq_None [simp]: "\<not> sql_eq a None"
  unfolding sql_eq_def by blast


lemma first_row_mem: "first_row js = Some r \<Longrightarrow> r \<in> set js"
  by (induction js arbitrary: r) (auto split: option.splits if_splits)

lemma key_in_map_filter:
  "x \<in> set xs \<Longrightarrow> key x = Some i \<Longrightarrow> i \<in> set (List.map_filter key xs)"
  by (induction xs) (auto split: option.splits)

lemma some_key_unique:
  "distinct (List.map_filter key xs) \<Longrightarrow> a \<in> set xs \<Longrightarrow> b \<in> set xs \<Longrightarrow>
   key a = Some i \<Longrightarrow> key b = Some i \<Longrightarrow> a = b"
proof (induction xs)
  case Nil
  then show ?case by simp
next
  case (Cons x xs)
  show ?case
  proof (cases "key x")
    case None
    with Cons.prems have "a \<in> set xs" "b \<in> set xs" "distinct (List.map_filter key xs)"
      by auto
    with Cons.IH Cons.prems show ?thesis by blast
  next
    case (Some k)
    with Cons.prems(1) have d: "distinct (List.map_filter key xs)"
      and n: "k \<notin> set (List.map_filter key xs)"
      by simp_all
    show ?thesis
    proof (cases "k = i")
      case True
      have "a = x"
      proof (rule ccontr)
        assume "a \<noteq> x"
        with Cons.prems(2) have "a \<in> set xs" by simp
        with Cons.prems(4) have "i \<in> set (List.map_filter key xs)"
          using key_in_map_filter by metis
        with n True show False by simp
      qed
      moreover have "b = x"
      proof (rule ccontr)
        assume "b \<noteq> x"
        with Cons.prems(3) have "b \<in> set xs" by simp
        with Cons.prems(5) have "i \<in> set (List.map_filter key xs)"
          using key_in_map_filter by metis
        with n True show False by simp
      qed
      ultimately show ?thesis by simp
    next
      case False
      with Some Cons.prems have "a \<in> set xs" "b \<in> set xs" by auto
      with Cons.IH [OF d] Cons.prems show ?thesis by blast
    qed
  qed
qed

lemma count_key_one:
  assumes d: "distinct (List.map_filter key xs)" and r: "r \<in> set xs"
    and k: "key r = Some i" and p: "P r"
  shows "length (filter (\<lambda>x. key x = Some i \<and> P x) xs) = 1"
  using d r
proof (induction xs)
  case Nil
  then show ?case by simp
next
  case (Cons a xs)
  show ?case
  proof (cases "a = r")
    case True
    from Cons.prems(1) k True have "i \<notin> set (List.map_filter key xs)"
      by simp
    then have "\<forall>x \<in> set xs. key x \<noteq> Some i"
      using key_in_map_filter by metis
    then have "filter (\<lambda>x. key x = Some i \<and> P x) xs = []"
      by (simp add: filter_empty_conv)
    with True k p show ?thesis by simp
  next
    case False
    with Cons.prems(2) have rin: "r \<in> set xs" by simp
    from Cons.prems(1) have d': "distinct (List.map_filter key xs)"
      by (simp split: option.splits)
    have "key a \<noteq> Some i"
    proof
      assume "key a = Some i"
      with some_key_unique [OF Cons.prems(1), of a r i] k rin False show False by simp
    qed
    with Cons.IH [OF d' rin] show ?thesis by simp
  qed
qed

lemma guarded_map_eq:
  "distinct (List.map_filter key xs) \<Longrightarrow> r \<in> set xs \<Longrightarrow> key r = Some i \<Longrightarrow> P r \<Longrightarrow>
   map (\<lambda>x. if key x = Some i \<and> P x then f x else x) xs
     = map (\<lambda>x. if key x = Some i then f x else x) xs"
  by (rule map_cong [OF refl]) (metis some_key_unique)

lemma find_map_key:
  "(\<And>x. key (f x) = key x) \<Longrightarrow>
   find (\<lambda>x. key x = i) (map (\<lambda>x. if key x = i then f x else x) xs)
     = map_option f (find (\<lambda>x. key x = i) xs)"
  by (induction xs) simp_all

lemma find_map_other:
  "(\<And>x. key (f x) = key x) \<Longrightarrow> k \<noteq> i \<Longrightarrow>
   find (\<lambda>x. key x = k) (map (\<lambda>x. if key x = i then f x else x) xs) = find (\<lambda>x. key x = k) xs"
  by (induction xs) simp_all

lemma map_key_update:
  "(\<And>x. key (f x) = key x) \<Longrightarrow> map key (map (\<lambda>x. if Q x then f x else x) xs) = map key xs"
  by (induction xs) simp_all

lemma map_filter_key_update:
  "(\<And>x. key (f x) = key x) \<Longrightarrow>
   List.map_filter key (map (\<lambda>x. if Q x then f x else x) xs) = List.map_filter key xs"
  by (induction xs) (simp_all split: option.splits)

lemma find_by_key:
  assumes d: "distinct (List.map_filter key xs)" and r: "r \<in> set xs" and k: "key r = Some i"
  shows "find (\<lambda>x. key x = Some i) xs = Some r"
  using d r
proof (induction xs)
  case Nil
  then show ?case by simp
next
  case (Cons a xs)
  show ?case
  proof (cases "a = r")
    case True
    with k show ?thesis by simp
  next
    case False
    with Cons.prems(2) have rin: "r \<in> set xs" by simp
    from Cons.prems(1) have d': "distinct (List.map_filter key xs)"
      by (simp split: option.splits)
    have "key a \<noteq> Some i"
    proof
      assume "key a = Some i"
      with some_key_unique [OF Cons.prems(1), of a r i] k rin False show False by simp
    qed
    with Cons.IH [OF d' rin] show ?thesis by simp
  qed
qed


lemma find_key_and:
  "distinct (List.map_filter key xs) \<Longrightarrow>
   find (\<lambda>x. key x = Some i \<and> P x) xs =
     (case find (\<lambda>x. key x = Some i) xs of None \<Rightarrow> None | Some x \<Rightarrow> if P x then Some x else None)"
proof (induction xs)
  case Nil
  then show ?case by simp
next
  case (Cons a xs)
  from Cons.prems have d': "distinct (List.map_filter key xs)"
    by (simp split: option.splits)
  show ?case
  proof (cases "key a = Some i")
    case False
    with Cons.IH [OF d'] show ?thesis by simp
  next
    case True
    with Cons.prems have "i \<notin> set (List.map_filter key xs)"
      by simp
    then have "\<forall>x \<in> set xs. key x \<noteq> Some i"
      using key_in_map_filter by metis
    then have "find (\<lambda>x. key x = Some i \<and> P x) xs = None"
      by (auto simp: find_None_iff)
    with True show ?thesis by simp
  qed
qed





lemma claim_rowcount_None: "claim_rowcount db None = 0"
  by (simp add: claim_rowcount_def)


lemma acquire_job_null_id:
  assumes "first_row (filter (eligible now) (scan (jobs db))) = Some r" and "job_id r = None"
  shows "acquire_job scan db w now = (None, db)"
  using assms by (simp add: acquire_job_def Let_def claim_rowcount_None)


lemma job_id_claimed: "job_id (claimed w now j) = job_id j"
  by (simp add: claimed_def)

lemma state_claimed: "state (claimed w now j) = Processing"
  by (simp add: claimed_def)

lemma locked_by_claimed: "locked_by (claimed w now j) = Some w"
  by (simp add: claimed_def)

lemma claim_rowcount_one:
  assumes pk: "pk_ok db" and r: "r \<in> set (jobs db)" and k: "job_id r = Some k" and c: "claimable r"
  shows "claim_rowcount db (Some k) = 1"
proof -
  from pk have d: "distinct (List.map_filter job_id (jobs db))" by (simp add: pk_ok_def)
  from count_key_one [OF d r k, where P = claimable] c show ?thesis
    by (simp add: claim_rowcount_def)
qed

lemma acquire_job_some:
  assumes pk: "pk_ok db" and sc: "visits_all scan"
    and sel: "first_row (filter (eligible now) (scan (jobs db))) = Some r"
    and k: "job_id r = Some k"
  shows "acquire_job scan db w now =
           (Some (claimed w now r), db\<lparr>jobs := update_job (Some k) (claimed w now) (jobs db)\<rparr>)"
proof -
  from sel have "r \<in> set (filter (eligible now) (scan (jobs db)))" by (rule first_row_mem)
  with sc have r: "r \<in> set (jobs db)" and e: "eligible now r" by (simp_all add: visits_all_def)
  from e have c: "claimable r" by (simp add: eligible_def)
  from pk have d: "distinct (List.map_filter job_id (jobs db))" by (simp add: pk_ok_def)
  have cnt: "claim_rowcount db (Some k) = 1"
    using pk r k c by (rule claim_rowcount_one)
  have upd: "map (\<lambda>j. if job_id j = Some k \<and> claimable j then claimed w now j else j) (jobs db)
               = update_job (Some k) (claimed w now) (jobs db)"
    using guarded_map_eq [OF d r k, where P = claimable and f = "claimed w now"] c
    by (simp add: update_job_def)
  have "find (\<lambda>j. job_id j = Some k) (update_job (Some k) (claimed w now) (jobs db))
          = map_option (claimed w now) (find (\<lambda>j. job_id j = Some k) (jobs db))"
    using find_map_key [where f = "claimed w now" and key = job_id and i = "Some k" and xs = "jobs db"]
    by (simp add: update_job_def job_id_claimed)
  also have "\<dots> = Some (claimed w now r)" using find_by_key [OF d r k] by simp
  finally have fnd: "find (\<lambda>j. job_id j = Some k) (update_job (Some k) (claimed w now) (jobs db))
          = Some (claimed w now r)" .
  show ?thesis
    unfolding acquire_job_def using sel cnt k by (simp add: Let_def upd fnd)
qed

lemma find_False: "find (\<lambda>x. False) xs = None"
  by (induction xs) simp_all

lemma get_job_update_same:
  "(\<And>x. job_id (f x) = job_id x) \<Longrightarrow>
   get_job (db\<lparr>jobs := update_job i f (jobs db)\<rparr>) i = map_option f (get_job db i)"
proof (cases i)
  case None
  then show ?thesis by (simp add: get_job_def update_job_def find_False)
next
  case (Some k)
  assume "\<And>x. job_id (f x) = job_id x"
  then show ?thesis
    using find_map_key [where f = f and key = job_id and i = "Some k" and xs = "jobs db"] Some
    by (simp add: get_job_def update_job_def)
qed

lemma get_job_update_other:
  "(\<And>x. job_id (f x) = job_id x) \<Longrightarrow> k \<noteq> i \<Longrightarrow>
   get_job (db\<lparr>jobs := update_job i f (jobs db)\<rparr>) k = get_job db k"
proof (cases i)
  case None
  then show ?thesis by (simp add: get_job_def update_job_def)
next
  case i: (Some i')
  assume f: "\<And>x. job_id (f x) = job_id x" and ne: "k \<noteq> i"
  show ?thesis
  proof (cases k)
    case None
    then show ?thesis by (simp add: get_job_def find_False)
  next
    case (Some k')
    with f ne i find_map_other [where f = f and key = job_id and k = "Some k'" and i = "Some i'"
        and xs = "jobs db"] show ?thesis
      by (simp add: get_job_def update_job_def)
  qed
qed

lemma pk_ok_update:
  assumes "\<And>x. job_id (f x) = job_id x" and "pk_ok db"
  shows "pk_ok (db\<lparr>jobs := update_job i f (jobs db)\<rparr>)"
  using assms(2)
  by (simp add: pk_ok_def update_job_def map_filter_key_update [where f = f and key = job_id, OF assms(1)])

lemma get_job_mem:
  assumes pk: "pk_ok db" and r: "r \<in> set (jobs db)" and k: "job_id r = Some k"
  shows "get_job db (Some k) = Some r"
proof -
  from pk have d: "distinct (List.map_filter job_id (jobs db))" by (simp add: pk_ok_def)
  from find_by_key [OF d r k] show ?thesis by (simp add: get_job_def)
qed

lemma acquire_job_cases:
  assumes pk: "pk_ok db" and sc: "visits_all scan"
  shows "acquire_job scan db w now = (None, db) \<or>
         (\<exists>r k. r \<in> set (jobs db) \<and> eligible now r \<and> job_id r = Some k \<and>
              acquire_job scan db w now =
                (Some (claimed w now r),
                 db\<lparr>jobs := update_job (Some k) (claimed w now) (jobs db)\<rparr>))"
proof (cases "first_row (filter (eligible now) (scan (jobs db)))")
  case None
  then show ?thesis by (simp add: acquire_job_def)
next
  case (Some r)
  from Some have "r \<in> set (filter (eligible now) (scan (jobs db)))" by (rule first_row_mem)
  with sc have r: "r \<in> set (jobs db)" "eligible now r" by (simp_all add: visits_all_def)
  show ?thesis
  proof (cases "job_id r")
    case None
    with Some show ?thesis by (simp add: acquire_job_null_id)
  next
    case k: (Some k)
    from acquire_job_some [OF pk sc Some k, of w] r k show ?thesis by blast
  qed
qed

lemma acquire_job_step:
  assumes pk: "pk_ok db" and sc: "visits_all scan"
    and acq: "acquire_job scan db w now = (res, db')"
  shows "pk_ok db'"
    and "is_processing db i \<Longrightarrow> is_processing db' i"
    and "res = Some j \<Longrightarrow>
           (\<exists>r. get_job db (job_id j) = Some r \<and> claimable r) \<and>
           get_job db' (job_id j) = Some j \<and> state j = Processing \<and> locked_by j = Some w"
proof -
  from acquire_job_cases [OF pk sc, of w now]
  have "(res = None \<and> db' = db) \<or>
        (\<exists>r k. r \<in> set (jobs db) \<and> eligible now r \<and> job_id r = Some k \<and>
             res = Some (claimed w now r) \<and>
             db' = db\<lparr>jobs := update_job (Some k) (claimed w now) (jobs db)\<rparr>)"
    using acq by auto
  then consider (none) "res = None" "db' = db"
    | (some) r k where "r \<in> set (jobs db)" "eligible now r" "res = Some (claimed w now r)"
         "db' = db\<lparr>jobs := update_job (Some k) (claimed w now) (jobs db)\<rparr>" "job_id r = Some k"
    by blast
  note cases = this
  show "pk_ok db'"
  proof (cases rule: cases)
    case none
    with pk show ?thesis by simp
  next
    case (some r k)
    with pk show ?thesis by (simp add: pk_ok_update job_id_claimed)
  qed
  show "is_processing db' i" if p: "is_processing db i"
  proof (cases rule: cases)
    case none
    with p show ?thesis by simp
  next
    case (some r k)
    show ?thesis
    proof (cases "i = Some k")
      case True
      from p obtain x where "get_job db i = Some x"
        by (auto simp: is_processing_def split: option.splits)
      with True have "get_job db' i = Some (claimed w now x)"
        using some(4) by (simp add: get_job_update_same job_id_claimed)
      then show ?thesis by (simp add: is_processing_def state_claimed)
    next
      case False
      then have "get_job db' i = get_job db i"
        using some(4) by (simp add: get_job_update_other job_id_claimed)
      with p show ?thesis by (simp add: is_processing_def)
    qed
  qed
  show "(\<exists>r. get_job db (job_id j) = Some r \<and> claimable r) \<and>
           get_job db' (job_id j) = Some j \<and> state j = Processing \<and> locked_by j = Some w"
    if rj: "res = Some j"
  proof (cases rule: cases)
    case none
    with rj show ?thesis by simp
  next
    case (some r k)
    with rj have j: "j = claimed w now r" by simp
    have g: "get_job db (Some k) = Some r"
      using pk some(1) some(5) by (rule get_job_mem)
    have c: "claimable r" using some(2) by (simp add: eligible_def)
    have "get_job db' (Some k) = Some (claimed w now r)"
      using some(4) g by (simp add: get_job_update_same job_id_claimed)
    with g c j some(5) show ?thesis
      by (simp add: job_id_claimed state_claimed locked_by_claimed)
  qed
qed

lemma claimable_not_processing:
  "get_job db i = Some r \<Longrightarrow> claimable r \<Longrightarrow> \<not> is_processing db i"
  by (auto simp: is_processing_def claimable_def)

lemma claim_all_distinct:
  "pk_ok db \<Longrightarrow> visits_all scan \<Longrightarrow> claim_all scan db cs = (rs, db') \<Longrightarrow>
   distinct (returned_ids rs) \<and> (\<forall>i \<in> set (returned_ids rs). \<not> is_processing db i)"
proof (induction cs arbitrary: db rs db')
  case Nil
  then show ?case by simp
next
  case (Cons c cs)
  obtain r db1 where a: "acquire_job scan db (fst c) (snd c) = (r, db1)"
    by (cases "acquire_job scan db (fst c) (snd c)")
  obtain rs' db2 where b: "claim_all scan db1 cs = (rs', db2)"
    by (cases "claim_all scan db1 cs")
  from Cons.prems(3) a b have rs: "rs = r # rs'" by simp
  from acquire_job_step(1) [OF Cons.prems(1,2) a] have pk1: "pk_ok db1" .
  from Cons.IH [OF pk1 Cons.prems(2) b]
  have d: "distinct (returned_ids rs')" and np: "\<forall>i \<in> set (returned_ids rs'). \<not> is_processing db1 i"
    by simp_all
  have np0: "\<forall>i \<in> set (returned_ids rs'). \<not> is_processing db i"
    using np acquire_job_step(2) [OF Cons.prems(1,2) a] by blast
  show ?case
  proof (cases r)
    case None
    with rs d np0 show ?thesis by simp
  next
    case (Some j)
    from acquire_job_step(3) [OF Cons.prems(1,2) a Some]
    obtain x where x: "get_job db (job_id j) = Some x" "claimable x"
      and j: "get_job db1 (job_id j) = Some j" "state j = Processing" by blast
    from x have n0: "\<not> is_processing db (job_id j)" by (rule claimable_not_processing)
    from j have "is_processing db1 (job_id j)" by (simp add: is_processing_def)
    with np have "job_id j \<notin> set (returned_ids rs')" by blast
    with rs Some d np0 n0 show ?thesis by simp
  qed
qed

lemma visits_all_in_order: "visits_all in_order"
  by (simp add: visits_all_def in_order_def)


lemma compute_backoff_int: "compute_backoff (PyInt b) n = b ^ nat (max n 0)"
  by (simp add: compute_backoff_def py_int_def)

lemma job_id_set_completed: "job_id (set_completed rc out err d t j) = job_id j"
  by (simp add: set_completed_def)

lemma job_id_set_dead: "job_id (set_dead a rc out err d t j) = job_id j"
  by (simp add: set_dead_def)

lemma job_id_set_failed: "job_id (set_failed a rc out err d nr t j) = job_id j"
  by (simp add: set_failed_def)

lemma complete_success:
  assumes "rc = 0" and "sqlite_int (elapsed_ms env)"
  shows "complete env db i b rc out err =
           (Inr (), db\<lparr>jobs := update_job i
                      (set_completed rc out err (elapsed_ms env) (t_done env)) (jobs db)\<rparr>)"
  using assms by (simp add: complete_def binds_def sqlite_int_def)

lemma complete_dead:
  assumes "rc \<noteq> 0" and "get_job db i = Some cur"
    and "int_of_cell (attempts cur) = Inr a" and "int_of_cell (max_retries cur) = Inr m"
    and "a + 1 > m" and "binds [a + 1, rc, elapsed_ms env]"
  shows "complete env db i b rc out err =
           (Inr (), db\<lparr>jobs := update_job i
                      (set_dead (a + 1) rc out err (elapsed_ms env) (t_done env))
                      (jobs db)\<rparr>)"
  using assms by (simp add: complete_def Let_def)

lemma complete_failed:
  assumes "rc \<noteq> 0" and "get_job db i = Some cur"
    and "int_of_cell (attempts cur) = Inr a" and "int_of_cell (max_retries cur) = Inr m"
    and "a + 1 \<le> m"
    and "utcnow_plus_seconds (t_retry env) (compute_backoff (PyInt b) (a + 1)) = Inr nr"
    and "binds [a + 1, rc, elapsed_ms env]"
  shows "complete env db i b rc out err =
           (Inr (), db\<lparr>jobs := update_job i
                      (set_failed (a + 1) rc out err (elapsed_ms env) nr (t_done env))
                      (jobs db)\<rparr>)"
  using assms by (simp add: complete_def Let_def)

lemma complete_overflow:
  assumes "rc \<noteq> 0" and "get_job db i = Some cur"
    and "int_of_cell (attempts cur) = Inr a" and "int_of_cell (max_retries cur) = Inr m"
    and "a + 1 \<le> m"
    and "utcnow_plus_seconds (t_retry env) (compute_backoff (PyInt b) (a + 1)) = Inl e"
  shows "complete env db i b rc out err = (Inl e, db)"
  using assms by (simp add: complete_def Let_def)

lemma complete_unbindable:
  assumes "rc \<noteq> 0" and "get_job db i = Some cur"
    and "int_of_cell (attempts cur) = Inr a" and "int_of_cell (max_retries cur) = Inr m"
    and "a + 1 > m" and "\<not> binds [a + 1, rc, elapsed_ms env]"
  shows "complete env db i b rc out err = (Inl OverflowError, db)"
  using assms by (simp add: complete_def Let_def)

lemma complete_failure_Inr:
  assumes "rc \<noteq> 0" and "get_job db i = Some cur"
    and "int_of_cell (attempts cur) = Inr a" and "int_of_cell (max_retries cur) = Inr m"
    and "a + 1 \<le> m" and "complete env db i b rc out err = (Inr (), db')"
  shows "\<exists>nr. utcnow_plus_seconds (t_retry env) (compute_backoff (PyInt b) (a + 1)) = Inr nr \<and>
              db' = db\<lparr>jobs := update_job i
                      (set_failed (a + 1) rc out err (elapsed_ms env) nr (t_done env))
                      (jobs db)\<rparr>"
  using assms by (simp add: complete_def Let_def split: sum.splits if_splits)

lemma utcnow_plus_seconds_Inr:
  "utcnow_plus_seconds t d = Inr r \<Longrightarrow> r = t + 1000000 * d"
  by (auto simp: utcnow_plus_seconds_def timedelta_seconds_def datetime_add_def
        split: option.splits if_splits)

lemma retry_overflow_base_2:
  assumes n: "38 \<le> n" and t: "0 \<le> t"
  shows "utcnow_plus_seconds t (compute_backoff (PyInt 2) n) = Inl OverflowError"
proof -
  from n have "(38::nat) \<le> nat (max n 0)" by simp
  then have "(2::int) ^ 38 \<le> 2 ^ nat (max n 0)"
    by (rule power_increasing) simp
  then have big: "274877906944 \<le> compute_backoff (PyInt 2) n"
    by (simp add: compute_backoff_int)
  with t have "datetime_max < t + compute_backoff (PyInt 2) n * 1000000"
    by (simp add: datetime_max_def)
  then have "datetime_add t (compute_backoff (PyInt 2) n * 1000000) = None"
    by (simp add: datetime_add_def)
  then show ?thesis
    by (simp add: utcnow_plus_seconds_def timedelta_seconds_def)
qed

lemma complete_overflow_base_2:
  assumes "rc \<noteq> 0" and "get_job db i = Some cur"
    and "int_of_cell (attempts cur) = Inr a" and "int_of_cell (max_retries cur) = Inr m"
    and "a + 1 \<le> m" and "37 \<le> a" and "0 \<le> t_retry env"
  shows "complete env db i 2 rc out err = (Inl OverflowError, db)"
proof -
  from assms(6) have "38 \<le> a + 1" by simp
  then have "utcnow_plus_seconds (t_retry env) (compute_backoff (PyInt 2) (a + 1))
               = Inl OverflowError"
    using assms(7) by (rule retry_overflow_base_2)
  with assms(1-5) show ?thesis by (rule complete_overflow)
qed

lemma held_job_fields:
  "job_id (held_job att mr) = Some ''a''" "state (held_job att mr) = Processing"
  "attempts (held_job att mr) = att" "max_retries (held_job att mr) = SqlInt mr"
  "command (held_job att mr) = ''exit 1''"
  by (simp_all add: held_job_def claimed_def inserted_row_def)

lemma get_job_one_held:
  "get_job (one_held base att mr) (Some ''a'') = Some (held_job att mr)"
  by (simp add: get_job_def one_held_def held_job_fields)

lemma int_of_cell_SqlInt: "int_of_cell (SqlInt n) = Inr n"
  by (simp add: int_of_cell_def)

lemma env_of_fields:
  "t_busy (env_of oc) = 1790000000000001" "sh (env_of oc) c t = oc" "elapsed_ms (env_of oc) = 12"
  "t_done (env_of oc) = 1790000000012000" "t_retry (env_of oc) = 1790000000012001"
  "t_idle (env_of oc) = 1790000000012002"
  by (simp_all add: env_of_def)

lemma retry_at_base_2:
  "utcnow_plus_seconds 1790000000012001 (compute_backoff (PyInt 2) 1) = Inr 1790000002012001"
  by (simp add: compute_backoff_int utcnow_plus_seconds_def timedelta_seconds_def
        datetime_add_def datetime_min_def datetime_max_def)

lemma retry_at_base_big:
  "utcnow_plus_seconds 1790000000012001 (compute_backoff (PyInt 1000000000000) 1)
     = Inl OverflowError"
  by (simp add: compute_backoff_int utcnow_plus_seconds_def timedelta_seconds_def
        datetime_add_def datetime_min_def datetime_max_def)

lemma str_int_1: "str_int 1 = ''1''"
  by (simp add: str_int_def digit_char_def)

lemma int_of_str_abc: "int_of_str ''abc'' = None"
  by (simp add: int_of_str_def strip_def is_space_def digit_val_def)

lemma int_of_str_2: "int_of_str ''2'' = Some 2"
  by (simp add: int_of_str_def strip_def is_space_def digit_val_def)

lemma int_of_str_0: "int_of_str ''0'' = Some 0"
  by (simp add: int_of_str_def strip_def is_space_def digit_val_def)

lemma int_of_str_big: "int_of_str ''1000000000000'' = Some 1000000000000"
  by (simp add: int_of_str_def strip_def is_space_def digit_val_def)

lemma run_job_bad_base:
  assumes "config db ''backoff_base'' = Some v" and "int_of_str v = None"
  shows "run_job env db w job =
           (Inl ValueError,
            db\<lparr>workers := update_worker w
                   (\<lambda>x. x\<lparr>status := Busy, current_job_id := job_id job,
                          last_seen_at := t_busy env\<rparr>) (workers db)\<rparr>)"
  using assms by (simp add: run_job_def Let_def get_config_def py_int_def)

lemma run_job_executed:
  assumes "config db ''backoff_base'' = Some v1" and "int_of_str v1 = Some b"
    and "config db ''job_timeout_sec'' = Some v2" and "int_of_str v2 = Some t"
    and "execute env (command job) t = Inr (rc, out, err)"
  shows "run_job env db w job =
           (case complete env
                   (db\<lparr>workers := update_worker w
                      (\<lambda>x. x\<lparr>status := Busy, current_job_id := job_id job,
                             last_seen_at := t_busy env\<rparr>) (workers db)\<rparr>)
                   (job_id job) b rc out err of
              (Inl e, db2) \<Rightarrow> (Inl e, db2)
            | (Inr u, db2) \<Rightarrow>
                (Inr (), db2\<lparr>workers := update_worker w
                             (\<lambda>x. x\<lparr>status := Idle, current_job_id := None,
                                    last_seen_at := t_idle env\<rparr>) (workers db2)\<rparr>))"
  using assms by (simp add: run_job_def Let_def get_config_def py_int_def)

lemma run_job_raised:
  assumes "config db ''backoff_base'' = Some v1" and "int_of_str v1 = Some b"
    and "config db ''job_timeout_sec'' = Some v2" and "int_of_str v2 = Some t"
    and "execute env (command job) t = Inl e"
  shows "fst (run_job env db w job) = Inl e"
  using assms by (simp add: run_job_def Let_def get_config_def py_int_def)

lemma get_job_workers_update: "get_job (db\<lparr>workers := ws\<rparr>) i = get_job db i"
  by (simp add: get_job_def)

lemma config_one_held:
  "config (one_held base att mr) ''backoff_base'' = Some base"
  "config (one_held base att mr) ''job_timeout_sec'' = Some ''0''"
  by (simp_all add: one_held_def)

lemma jobs_ensure_db: "jobs (ensure_db db) = jobs db"
  by (simp add: ensure_db_def)

lemma pk_ok_ensure_db: "pk_ok (ensure_db db) = pk_ok db"
  by (simp add: pk_ok_def jobs_ensure_db)

lemma get_job_ensure_db: "get_job (ensure_db db) i = get_job db i"
  by (simp add: get_job_def jobs_ensure_db)

lemma job_id_set_requeued: "job_id (set_requeued now j) = job_id j"
  by (simp add: set_requeued_def)

lemma dlq_retry_dead:
  assumes pk: "pk_ok db" and cur: "get_job db (Some i) = Some cur" and d: "state cur = Dead"
  shows "dlq_retry db now i =
           (Inr (), (ensure_db db)\<lparr>jobs := update_job (Some i) (set_requeued now) (jobs db)\<rparr>)"
proof -
  from pk have "distinct (List.map_filter job_id (jobs db))" by (simp add: pk_ok_def)
  from find_key_and [OF this, where i = i and P = "\<lambda>j. state j = Dead"] cur d
  have "find (\<lambda>j. job_id j = Some i \<and> state j = Dead) (jobs db) = Some cur"
    by (simp add: get_job_def)
  then show ?thesis by (simp add: dlq_retry_def Let_def jobs_ensure_db)
qed

lemma dlq_retry_not_dead:
  assumes pk: "pk_ok db" and nd: "\<forall>cur. get_job db (Some i) = Some cur \<longrightarrow> state cur \<noteq> Dead"
  shows "dlq_retry db now i = (Inl (SystemExit 1), ensure_db db)"
proof -
  from pk have "distinct (List.map_filter job_id (jobs db))" by (simp add: pk_ok_def)
  from find_key_and [OF this, where i = i and P = "\<lambda>j. state j = Dead"] nd
  have "find (\<lambda>j. job_id j = Some i \<and> state j = Dead) (jobs db) = None"
    by (simp add: get_job_def split: option.splits)
  then show ?thesis by (simp add: dlq_retry_def Let_def jobs_ensure_db)
qed

lemma insert_job_jobs:
  "\<exists>new. jobs (snd (insert_job db i cmd st att mr ca ua prio)) = jobs db @ new \<and> length new \<le> 1 \<and>
         (\<forall>j \<in> set new. locked_by j = None \<and> Option.bind st state_of_string = Some (state j))"
  by (simp add: insert_job_def inserted_row_def split: option.splits)

lemma enqueue_job_jobs:
  "\<exists>new. jobs (snd (enqueue_job db job prio now uuid)) = jobs db @ new \<and> length new \<le> 1 \<and>
         (\<forall>j \<in> set new. locked_by j = None \<and>
            Option.bind (stored (setdefault (j_state job) ''pending'')) state_of_string
              = Some (state j))"
proof (cases "j_command job = Absent")
  case True
  then show ?thesis by (simp add: enqueue_job_def Let_def jobs_ensure_db)
next
  case False
  let ?es = "[bind_error (setdefault (j_id job) uuid), bind_error (j_command job),
              bind_error (setdefault (j_state job) ''pending''),
              bind_num (setdefault (j_attempts job) (SqlInt 0)),
              bind_num (setdefault (j_max_retries job) (SqlInt 3)),
              bind_error (setdefault (j_created_at job) now),
              bind_error (setdefault (j_updated_at job) now),
              if sqlite_int prio then None else Some OverflowError]"
  show ?thesis
  proof (cases "first_error ?es")
    case (Some e)
    with False show ?thesis by (simp add: enqueue_job_def Let_def jobs_ensure_db)
  next
    case None
    with False have "enqueue_job db job prio now uuid =
        insert_job (ensure_db db) (stored (setdefault (j_id job) uuid)) (stored (j_command job))
          (stored (setdefault (j_state job) ''pending''))
          (stored (setdefault (j_attempts job) (SqlInt 0)))
          (stored (setdefault (j_max_retries job) (SqlInt 3)))
          (stored (setdefault (j_created_at job) now))
          (stored (setdefault (j_updated_at job) now)) prio"
      by (simp add: enqueue_job_def Let_def)
    with insert_job_jobs [of "ensure_db db"] show ?thesis
      by (simp add: jobs_ensure_db)
  qed
qed

lemma shutdown_ensure_db: "\<exists>v. control (ensure_db db) ''shutdown'' = Some v"
  by (simp add: ensure_db_def insert_or_ignore_def split: option.splits)

lemma update_control_present:
  "m k = Some v \<Longrightarrow> update_control k v' m k = Some v'"
  by (simp add: update_control_def)

lemma shutdown_spawn_workers:
  "control (snd (spawn_workers pid hex db count)) ''shutdown'' = Some ''0''"
proof -
  obtain v where "control (ensure_db db) ''shutdown'' = Some v"
    using shutdown_ensure_db by blast
  then show ?thesis
    by (simp add: spawn_workers_def Let_def update_control_present)
qed

lemma shutdown_stop_workers:
  "control (snd (stop_workers pids db)) ''shutdown'' = Some ''1''"
proof -
  obtain v where "control (ensure_db db) ''shutdown'' = Some v"
    using shutdown_ensure_db by blast
  then show ?thesis
    by (simp add: stop_workers_def Let_def update_control_present)
qed

lemma main_db_done_json:
  "jobs (main_db cli_env0 empty_db (Enqueue done_json 0)) =
     [inserted_row (Some ''x'') ''true'' Completed (SqlInt 0) (SqlInt 3)
        1790000000000000 1790000000000000 0]"
  by (simp add: enqueue_job_def insert_job_def Let_def jobs_ensure_db empty_db_def done_json_def
        setdefault_def stored_def bind_error_def bind_num_def sqlite_int_def affinity_integer_def
        state_of_string_def cli_env0_def)

lemma enqueue_job_null_id:
  "enqueue_job empty_db (done_json\<lparr>j_id := Null\<rparr>) 9 t u =
     (Inr None,
      (ensure_db empty_db)\<lparr>jobs := [inserted_row None ''true'' Completed (SqlInt 0) (SqlInt 3) t t 9]\<rparr>)"
  by (simp add: enqueue_job_def insert_job_def Let_def jobs_ensure_db empty_db_def done_json_def
        setdefault_def stored_def bind_error_def bind_num_def sqlite_int_def affinity_integer_def
        state_of_string_def)

lemma enqueue_job_too_large:
  "enqueue_job db (done_json\<lparr>j_attempts := Val (SqlInt 9223372036854775808)\<rparr>) 0 t u =
     (Inl OverflowError, ensure_db db)"
  by (simp add: enqueue_job_def Let_def done_json_def
        setdefault_def bind_error_def bind_num_def sqlite_int_def)

lemma enqueue_job_null_state:
  "enqueue_job db (done_json\<lparr>j_state := Null\<rparr>) 0 t u = (Inl IntegrityError, ensure_db db)"
  by (simp add: enqueue_job_def insert_job_def Let_def done_json_def
        setdefault_def stored_def bind_error_def bind_num_def sqlite_int_def)

lemma update_job_set_requeued:
  "update_job (Some i) (set_requeued now) js =
     map (\<lambda>j. if job_id j = Some i
               then j\<lparr>state := Pending, attempts := SqlInt 0, next_run_at := None,
                      last_error := None, updated_at := now\<rparr>
               else j) js"
  by (simp add: update_job_def sql_eq_def set_requeued_def)

section \<open>The claims\<close>

text \<open>
  Claim C1. Each call of \<open>acquire_job\<close> is one exclusive write transaction, so calls
  made concurrently by any number of workers take effect in some serial order. For every
  database that respects the primary key and every order in which the selecting query
  visits the rows: a call never returns a job that is in state processing when the call
  takes effect, and the job it returns is in state processing and locked by the caller
  afterwards; hence, in every serial order of any calls (any workers, any clock
  readings), the ids handed out are pairwise distinct and none of them was processing
  at the start.
\<close>

theorem claim_exclusive:
  assumes pk: "pk_ok db" and sc: "visits_all scan"
  shows "(\<forall>w now j db'. acquire_job scan db w now = (Some j, db') \<longrightarrow>
            \<not> is_processing db (job_id j) \<and>
            get_job db' (job_id j) = Some j \<and> state j = Processing \<and> locked_by j = Some w) \<and>
         (\<forall>cs. distinct (returned_ids (fst (claim_all scan db cs))) \<and>
               (\<forall>i \<in> set (returned_ids (fst (claim_all scan db cs))). \<not> is_processing db i))"
proof (intro conjI allI impI)
  fix w now j db'
  assume a: "acquire_job scan db w now = (Some j, db')"
  from acquire_job_step(3) [OF pk sc a refl]
  obtain x where x: "get_job db (job_id j) = Some x" "claimable x"
    and j: "get_job db' (job_id j) = Some j" "state j = Processing" "locked_by j = Some w" by blast
  from x show "\<not> is_processing db (job_id j)" by (rule claimable_not_processing)
  from j show "get_job db' (job_id j) = Some j" "state j = Processing" "locked_by j = Some w" by simp_all
next
  fix cs
  obtain rs db' where c: "claim_all scan db cs = (rs, db')" by (cases "claim_all scan db cs")
  from claim_all_distinct [OF pk sc c] c
  show "distinct (returned_ids (fst (claim_all scan db cs)))"
    and "\<forall>i \<in> set (returned_ids (fst (claim_all scan db cs))). \<not> is_processing db i" by simp_all
qed

text \<open>
  C1 at the database \<open>two_jobs\<close>: three workers claim at the same instant; two of them
  get the two jobs, the third gets none.
\<close>

theorem claim_exclusive_witness:
  "pk_ok two_jobs \<and> visits_all in_order \<and>
   distinct (returned_ids (fst (claim_all in_order two_jobs [(''w1'', 10), (''w2'', 10), (''w3'', 10)]))) \<and>
   returned_ids (fst (claim_all in_order two_jobs [(''w1'', 10), (''w2'', 10), (''w3'', 10)]))
     = [Some ''b'', Some ''a'']"
proof -
  have pk: "pk_ok two_jobs"
    by (simp add: pk_ok_def two_jobs_def inserted_row_def)
  have "returned_ids (fst (claim_all in_order two_jobs [(''w1'', 10), (''w2'', 10), (''w3'', 10)]))
          = [Some ''b'', Some ''a'']"
    by (simp add: two_jobs_def inserted_row_def acquire_job_def eligible_def claimable_def
          claimed_def precedes_def Let_def in_order_def claim_rowcount_def)
  with pk visits_all_in_order claim_exclusive [OF pk visits_all_in_order] show ?thesis by blast
qed



text \<open>
  Claim C3, as amended. When the completion step of \<open>run_job\<close> runs for a job that has a
  row: if the return code is 0 and the measured duration fits 64 bits, the job becomes
  completed, the result columns are written, the lock columns are cleared and \<open>attempts\<close>
  keeps its value. Otherwise, when the columns \<open>attempts\<close> and \<open>max_retries\<close> hold numbers
  (\<open>int(...)\<close> reads \<open>a\<close> and \<open>m\<close> from them) and \<open>a + 1\<close>, the return code and the duration
  fit 64 bits: \<open>attempts\<close> becomes \<open>a + 1\<close>, and if that exceeds \<open>m\<close> the job becomes
  dead with \<open>last_error = "Exit code <rc>"\<close> (capital E) and the lock columns cleared;
  else, when the clock reading plus \<open>compute_backoff(base, a + 1)\<close> seconds is a
  \<open>datetime\<close>, the job becomes failed with \<open>next_run_at\<close> set to that instant, the same
  \<open>last_error\<close> and the lock columns cleared.
\<close>

theorem complete_transitions:
  assumes cur: "get_job db i = Some cur"
  shows "(rc = 0 \<and> sqlite_int (elapsed_ms env) \<longrightarrow>
            (\<exists>db'. complete env db i b rc out err = (Inr (), db') \<and>
                   get_job db' i =
                     Some (cur\<lparr>state := Completed, return_code := Some rc, stdout := out,
                               stderr := err, duration_ms := Some (elapsed_ms env),
                               updated_at := t_done env, locked_by := None,
                               locked_at := None\<rparr>))) \<and>
         (rc \<noteq> 0 \<and> int_of_cell (attempts cur) = Inr a \<and> int_of_cell (max_retries cur) = Inr m \<and>
          binds [a + 1, rc, elapsed_ms env] \<and> a + 1 > m \<longrightarrow>
            (\<exists>db'. complete env db i b rc out err = (Inr (), db') \<and>
                   get_job db' i =
                     Some (cur\<lparr>state := Dead, attempts := SqlInt (a + 1),
                               last_error := Some (''Exit code '' @ str_int rc),
                               return_code := Some rc, stdout := out, stderr := err,
                               duration_ms := Some (elapsed_ms env),
                               updated_at := t_done env, locked_by := None,
                               locked_at := None\<rparr>))) \<and>
         (rc \<noteq> 0 \<and> int_of_cell (attempts cur) = Inr a \<and> int_of_cell (max_retries cur) = Inr m \<and>
          binds [a + 1, rc, elapsed_ms env] \<and> a + 1 \<le> m \<and>
          utcnow_plus_seconds (t_retry env) (compute_backoff (PyInt b) (a + 1)) = Inr nr \<longrightarrow>
            nr = t_retry env + 1000000 * compute_backoff (PyInt b) (a + 1) \<and>
            (\<exists>db'. complete env db i b rc out err = (Inr (), db') \<and>
                   get_job db' i =
                     Some (cur\<lparr>state := Failed, attempts := SqlInt (a + 1),
                               last_error := Some (''Exit code '' @ str_int rc),
                               return_code := Some rc, stdout := out, stderr := err,
                               duration_ms := Some (elapsed_ms env),
                               next_run_at := Some nr,
                               updated_at := t_done env, locked_by := None,
                               locked_at := None\<rparr>)))"
proof (intro conjI impI)
  assume h: "rc = 0 \<and> sqlite_int (elapsed_ms env)"
  let ?db = "db\<lparr>jobs := update_job i
                      (set_completed rc out err (elapsed_ms env) (t_done env)) (jobs db)\<rparr>"
  have 1: "complete env db i b rc out err = (Inr (), ?db)"
    using h by (simp add: complete_success)
  have "get_job ?db i = Some (set_completed rc out err (elapsed_ms env) (t_done env) cur)"
    using cur by (simp add: get_job_update_same job_id_set_completed)
  then have 2: "get_job ?db i =
                     Some (cur\<lparr>state := Completed, return_code := Some rc, stdout := out,
                               stderr := err, duration_ms := Some (elapsed_ms env),
                               updated_at := t_done env, locked_by := None,
                               locked_at := None\<rparr>)"
    by (simp add: set_completed_def)
  show "\<exists>db'. complete env db i b rc out err = (Inr (), db') \<and>
                   get_job db' i =
                     Some (cur\<lparr>state := Completed, return_code := Some rc, stdout := out,
                               stderr := err, duration_ms := Some (elapsed_ms env),
                               updated_at := t_done env, locked_by := None,
                               locked_at := None\<rparr>)"
    by (rule exI [of _ ?db]) (intro conjI 1 2)
next
  assume h: "rc \<noteq> 0 \<and> int_of_cell (attempts cur) = Inr a \<and> int_of_cell (max_retries cur) = Inr m \<and>
          binds [a + 1, rc, elapsed_ms env] \<and> a + 1 > m"
  let ?db = "db\<lparr>jobs := update_job i
                      (set_dead (a + 1) rc out err (elapsed_ms env) (t_done env))
                      (jobs db)\<rparr>"
  have 1: "complete env db i b rc out err = (Inr (), ?db)"
    using h cur by (simp add: complete_dead)
  have "get_job ?db i = Some (set_dead (a + 1) rc out err (elapsed_ms env) (t_done env) cur)"
    using cur by (simp add: get_job_update_same job_id_set_dead)
  then have 2: "get_job ?db i =
                     Some (cur\<lparr>state := Dead, attempts := SqlInt (a + 1),
                               last_error := Some (''Exit code '' @ str_int rc),
                               return_code := Some rc, stdout := out, stderr := err,
                               duration_ms := Some (elapsed_ms env),
                               updated_at := t_done env, locked_by := None,
                               locked_at := None\<rparr>)"
    by (simp add: set_dead_def)
  show "\<exists>db'. complete env db i b rc out err = (Inr (), db') \<and>
                   get_job db' i =
                     Some (cur\<lparr>state := Dead, attempts := SqlInt (a + 1),
                               last_error := Some (''Exit code '' @ str_int rc),
                               return_code := Some rc, stdout := out, stderr := err,
                               duration_ms := Some (elapsed_ms env),
                               updated_at := t_done env, locked_by := None,
                               locked_at := None\<rparr>)"
    by (rule exI [of _ ?db]) (intro conjI 1 2)
next
  assume h: "rc \<noteq> 0 \<and> int_of_cell (attempts cur) = Inr a \<and> int_of_cell (max_retries cur) = Inr m \<and>
          binds [a + 1, rc, elapsed_ms env] \<and> a + 1 \<le> m \<and>
          utcnow_plus_seconds (t_retry env) (compute_backoff (PyInt b) (a + 1)) = Inr nr"
  then show "nr = t_retry env + 1000000 * compute_backoff (PyInt b) (a + 1)"
    by (simp add: utcnow_plus_seconds_Inr)
  let ?db = "db\<lparr>jobs := update_job i
                      (set_failed (a + 1) rc out err (elapsed_ms env) nr (t_done env))
                      (jobs db)\<rparr>"
  have 1: "complete env db i b rc out err = (Inr (), ?db)"
    using h cur by (simp add: complete_failed)
  have "get_job ?db i =
          Some (set_failed (a + 1) rc out err (elapsed_ms env) nr (t_done env) cur)"
    using cur by (simp add: get_job_update_same job_id_set_failed)
  then have 2: "get_job ?db i =
                     Some (cur\<lparr>state := Failed, attempts := SqlInt (a + 1),
                               last_error := Some (''Exit code '' @ str_int rc),
                               return_code := Some rc, stdout := out, stderr := err,
                               duration_ms := Some (elapsed_ms env),
                               next_run_at := Some nr,
                               updated_at := t_done env, locked_by := None,
                               locked_at := None\<rparr>)"
    by (simp add: set_failed_def)
  show "\<exists>db'. complete env db i b rc out err = (Inr (), db') \<and>
                   get_job db' i =
                     Some (cur\<lparr>state := Failed, attempts := SqlInt (a + 1),
                               last_error := Some (''Exit code '' @ str_int rc),
                               return_code := Some rc, stdout := out, stderr := err,
                               duration_ms := Some (elapsed_ms env),
                               next_run_at := Some nr,
                               updated_at := t_done env, locked_by := None,
                               locked_at := None\<rparr>)"
    by (rule exI [of _ ?db]) (intro conjI 1 2)
qed

text \<open>
  C3 at a first attempt that exits with code 0, at one that exits with code 1 when
  \<open>max_retries = 0\<close>, and at one that exits with code 1 when \<open>max_retries = 3\<close>.
\<close>

theorem complete_transitions_witness:
  "map_option state
     (get_job (snd (complete (env_of (Exited 0 [] [])) (one_held ''2'' (SqlInt 0) 3) (Some ''a'') 2 0
                      (Text []) (Text []))) (Some ''a''))
     = Some Completed \<and>
   map_option attempts
     (get_job (snd (complete (env_of (Exited 0 [] [])) (one_held ''2'' (SqlInt 0) 3) (Some ''a'') 2 0
                      (Text []) (Text []))) (Some ''a''))
     = Some (SqlInt 0) \<and>
   map_option state
     (get_job (snd (complete (env_of (Exited 1 [] [])) (one_held ''2'' (SqlInt 0) 0) (Some ''a'') 2 1
                      (Text []) (Text []))) (Some ''a''))
     = Some Dead \<and>
   map_option attempts
     (get_job (snd (complete (env_of (Exited 1 [] [])) (one_held ''2'' (SqlInt 0) 0) (Some ''a'') 2 1
                      (Text []) (Text []))) (Some ''a''))
     = Some (SqlInt 1) \<and>
   fst (complete (env_of (Exited 1 [] [])) (one_held ''2'' (SqlInt 0) 3) (Some ''a'') 2 1
          (Text []) (Text [])) = Inr () \<and>
   map_option state
     (get_job (snd (complete (env_of (Exited 1 [] [])) (one_held ''2'' (SqlInt 0) 3) (Some ''a'') 2 1
                      (Text []) (Text []))) (Some ''a''))
     = Some Failed \<and>
   map_option next_run_at
     (get_job (snd (complete (env_of (Exited 1 [] [])) (one_held ''2'' (SqlInt 0) 3) (Some ''a'') 2 1
                      (Text []) (Text []))) (Some ''a''))
     = Some (Some 1790000002012001)"
proof -
  let ?bad = "env_of (Exited 1 [] [])"
  let ?ok = "env_of (Exited 0 [] [])"
  have bd: "binds [0 + 1, 1, elapsed_ms ?bad]" and el: "sqlite_int (elapsed_ms ?ok)"
    by (simp_all add: binds_def sqlite_int_def env_of_fields)
  have u: "utcnow_plus_seconds (t_retry ?bad) (compute_backoff (PyInt 2) (0 + 1))
             = Inr 1790000002012001"
    by (simp add: env_of_fields retry_at_base_2)
  from complete_transitions [where db = "one_held ''2'' (SqlInt 0) 3" and i = "Some ''a''"
         and cur = "held_job (SqlInt 0) 3" and rc = 0 and env = ?ok and b = 2
         and out = "Text []" and err = "Text []", OF get_job_one_held, THEN conjunct1] el
  obtain d1 where c1: "complete ?ok (one_held ''2'' (SqlInt 0) 3) (Some ''a'') 2 0 (Text []) (Text [])
                         = (Inr (), d1)"
    and g1: "get_job d1 (Some ''a'') =
              Some ((held_job (SqlInt 0) 3)\<lparr>state := Completed, return_code := Some 0,
                               stdout := Text [], stderr := Text [],
                               duration_ms := Some (elapsed_ms ?ok),
                               updated_at := t_done ?ok, locked_by := None,
                               locked_at := None\<rparr>)"
    by auto
  from complete_transitions [where db = "one_held ''2'' (SqlInt 0) 0" and i = "Some ''a''"
         and cur = "held_job (SqlInt 0) 0" and rc = 1 and env = ?bad and b = 2 and a = 0 and m = 0
         and out = "Text []" and err = "Text []", OF get_job_one_held,
         THEN conjunct2, THEN conjunct1] bd
  obtain d2 where c2: "complete ?bad (one_held ''2'' (SqlInt 0) 0) (Some ''a'') 2 1 (Text []) (Text [])
                         = (Inr (), d2)"
    and g2: "get_job d2 (Some ''a'') =
              Some ((held_job (SqlInt 0) 0)\<lparr>state := Dead, attempts := SqlInt (0 + 1),
                               last_error := Some (''Exit code '' @ str_int 1),
                               return_code := Some 1, stdout := Text [], stderr := Text [],
                               duration_ms := Some (elapsed_ms ?bad),
                               updated_at := t_done ?bad, locked_by := None,
                               locked_at := None\<rparr>)"
    by (auto simp: held_job_fields int_of_cell_SqlInt)
  from complete_transitions [where db = "one_held ''2'' (SqlInt 0) 3" and i = "Some ''a''"
         and cur = "held_job (SqlInt 0) 3" and rc = 1 and env = ?bad and b = 2 and a = 0 and m = 3
         and nr = 1790000002012001 and out = "Text []" and err = "Text []", OF get_job_one_held,
         THEN conjunct2, THEN conjunct2] bd u
  obtain d3 where c3: "complete ?bad (one_held ''2'' (SqlInt 0) 3) (Some ''a'') 2 1 (Text []) (Text [])
                         = (Inr (), d3)"
    and g3: "get_job d3 (Some ''a'') =
              Some ((held_job (SqlInt 0) 3)\<lparr>state := Failed, attempts := SqlInt (0 + 1),
                               last_error := Some (''Exit code '' @ str_int 1),
                               return_code := Some 1, stdout := Text [], stderr := Text [],
                               duration_ms := Some (elapsed_ms ?bad),
                               next_run_at := Some 1790000002012001,
                               updated_at := t_done ?bad, locked_by := None,
                               locked_at := None\<rparr>)"
    by (auto simp: held_job_fields int_of_cell_SqlInt)
  from c1 g1 c2 g2 c3 g3 show ?thesis by (simp add: held_job_fields)
qed

text \<open>
  C3 as stated fails: with \<open>max_retries = 0\<close> and return code 1 the job is dead with
  \<open>last_error = "Exit code 1"\<close>, not \<open>"exit code 1"\<close>; with base \<open>10^12\<close> and
  \<open>max_retries = 3\<close> the retry instant lies beyond the year 9999, the completion step
  raises \<open>OverflowError\<close> and the job stays in state processing; and with
  \<open>attempts = 2^63 - 1\<close> and \<open>max_retries = 0\<close> the incremented count does not fit 64
  bits, the \<open>UPDATE\<close> that would make the job dead raises \<open>OverflowError\<close> and the job
  stays in state processing.
\<close>

theorem complete_transitions_counterexample:
  "map_option last_error
     (get_job (snd (complete (env_of (Exited 1 [] [])) (one_held ''2'' (SqlInt 0) 0) (Some ''a'') 2 1
                      (Text []) (Text []))) (Some ''a''))
     = Some (Some ''Exit code 1'') \<and>
   map_option last_error
     (get_job (snd (complete (env_of (Exited 1 [] [])) (one_held ''2'' (SqlInt 0) 0) (Some ''a'') 2 1
                      (Text []) (Text []))) (Some ''a''))
     \<noteq> Some (Some ''exit code 1'') \<and>
   map_option state
     (get_job (snd (complete (env_of (Exited 1 [] [])) (one_held ''2'' (SqlInt 0) 0) (Some ''a'') 2 1
                      (Text []) (Text []))) (Some ''a''))
     = Some Dead \<and>
   complete (env_of (Exited 1 [] [])) (one_held ''2'' (SqlInt 0) 3) (Some ''a'') 1000000000000 1
       (Text []) (Text [])
     = (Inl OverflowError, one_held ''2'' (SqlInt 0) 3) \<and>
   complete (env_of (Exited 1 [] [])) (one_held ''2'' (SqlInt 9223372036854775807) 0) (Some ''a'') 2 1
       (Text []) (Text [])
     = (Inl OverflowError, one_held ''2'' (SqlInt 9223372036854775807) 0) \<and>
   map_option state (get_job (one_held ''2'' (SqlInt 9223372036854775807) 0) (Some ''a''))
     = Some Processing"
proof -
  let ?env = "env_of (Exited 1 [] [])"
  have d: "complete ?env (one_held ''2'' (SqlInt 0) 0) (Some ''a'') 2 1 (Text []) (Text [])
             = (Inr (), (one_held ''2'' (SqlInt 0) 0)\<lparr>jobs := update_job (Some ''a'')
                      (set_dead (0 + 1) 1 (Text []) (Text []) (elapsed_ms ?env) (t_done ?env))
                      (jobs (one_held ''2'' (SqlInt 0) 0))\<rparr>)"
    by (rule complete_dead [OF _ get_job_one_held, where a = 0 and m = 0])
      (simp_all add: held_job_fields int_of_cell_SqlInt binds_def sqlite_int_def env_of_fields)
  have g: "get_job (snd (complete ?env (one_held ''2'' (SqlInt 0) 0) (Some ''a'') 2 1 (Text []) (Text [])))
             (Some ''a'')
             = Some (set_dead (0 + 1) 1 (Text []) (Text []) (elapsed_ms ?env) (t_done ?env)
                       (held_job (SqlInt 0) 0))"
    unfolding d by (simp add: get_job_update_same job_id_set_dead get_job_one_held)
  have u: "utcnow_plus_seconds (t_retry ?env) (compute_backoff (PyInt 1000000000000) (0 + 1))
             = Inl OverflowError"
    by (simp add: env_of_fields retry_at_base_big)
  have o: "complete ?env (one_held ''2'' (SqlInt 0) 3) (Some ''a'') 1000000000000 1 (Text []) (Text [])
     = (Inl OverflowError, one_held ''2'' (SqlInt 0) 3)"
    by (rule complete_overflow [OF _ get_job_one_held _ _ _ u, where m = 3])
      (simp_all add: held_job_fields int_of_cell_SqlInt)
  have b: "complete ?env (one_held ''2'' (SqlInt 9223372036854775807) 0) (Some ''a'') 2 1
             (Text []) (Text [])
     = (Inl OverflowError, one_held ''2'' (SqlInt 9223372036854775807) 0)"
    by (rule complete_unbindable [OF _ get_job_one_held, where a = 9223372036854775807 and m = 0])
      (simp_all add: held_job_fields int_of_cell_SqlInt binds_def sqlite_int_def)
  have p: "map_option state (get_job (one_held ''2'' (SqlInt 9223372036854775807) 0) (Some ''a''))
             = Some Processing"
    by (simp add: get_job_one_held held_job_fields)
  from g o b p show ?thesis by (simp add: set_dead_def str_int_1)
qed

text \<open>
  Claim C4 says that a job with \<open>max_retries = r\<close> whose every attempt fails is dead
  after exactly \<open>r + 1\<close> failed attempts. The failure path adds the delay to the clock
  with \<open>utcnow() + timedelta(seconds=delay)\<close>, which raises once the sum passes the year
  9999. Here \<open>backoff_base\<close> is configured as \<open>10^12\<close> and job \<open>a\<close> has \<open>max_retries = 1\<close>
  and \<open>attempts = 0\<close>: its first failing attempt makes \<open>run_job\<close> raise \<open>OverflowError\<close>
  and leaves the row as it was, in state processing with \<open>attempts = 0\<close>, so the job is
  never claimed again and never becomes dead. With the default base 2 the same happens
  at the 38th failure (lemma \<open>complete_overflow_base_2\<close>).
\<close>

theorem run_job_retry_overflow:
  "fst (run_job (env_of (Exited 1 [] [])) (one_held ''1000000000000'' (SqlInt 0) 1) ''w1''
          (held_job (SqlInt 0) 1))
     = Inl OverflowError \<and>
   get_job (snd (run_job (env_of (Exited 1 [] [])) (one_held ''1000000000000'' (SqlInt 0) 1) ''w1''
                   (held_job (SqlInt 0) 1))) (Some ''a'')
     = Some (held_job (SqlInt 0) 1) \<and>
   state (held_job (SqlInt 0) 1) = Processing \<and> attempts (held_job (SqlInt 0) 1) = SqlInt 0 \<and>
   max_retries (held_job (SqlInt 0) 1) = SqlInt 1"
proof -
  let ?env = "env_of (Exited 1 [] [])"
  let ?db = "one_held ''1000000000000'' (SqlInt 0) 1"
  let ?db1 = "?db\<lparr>workers := update_worker ''w1''
                      (\<lambda>x. x\<lparr>status := Busy, current_job_id := Some ''a'',
                             last_seen_at := t_busy ?env\<rparr>) (workers ?db)\<rparr>"
  have ex: "execute ?env (command (held_job (SqlInt 0) 1)) 0 = Inr (1, Text [], Text [])"
    by (simp add: execute_def env_of_fields)
  have g: "get_job ?db1 (Some ''a'') = Some (held_job (SqlInt 0) 1)"
    by (simp add: get_job_workers_update get_job_one_held)
  have u: "utcnow_plus_seconds (t_retry ?env) (compute_backoff (PyInt 1000000000000) (0 + 1))
             = Inl OverflowError"
    by (simp add: env_of_fields retry_at_base_big)
  have co: "complete ?env ?db1 (Some ''a'') 1000000000000 1 (Text []) (Text [])
              = (Inl OverflowError, ?db1)"
    by (rule complete_overflow [OF _ g _ _ _ u, where m = 1])
      (simp_all add: held_job_fields int_of_cell_SqlInt)
  have "run_job ?env ?db ''w1'' (held_job (SqlInt 0) 1) = (Inl OverflowError, ?db1)"
    using run_job_executed [OF config_one_held(1) int_of_str_big config_one_held(2) int_of_str_0 ex,
            where w = "''w1''"]
    by (simp add: held_job_fields co)
  with g show ?thesis by (simp add: held_job_fields)
qed

text \<open>
  Claim C5. For every integer base and every attempts count,
  \<open>compute_backoff(base, attempts)\<close> is \<open>base\<close> to the power \<open>max(attempts, 0)\<close>; for base
  2 and a non-negative count that is \<open>2^attempts\<close>, and it is monotonically non-decreasing
  in the count; and the count that the failure path of \<open>run_job\<close> passes is the
  incremented one (one more than \<open>int(...)\<close> reads from the column \<open>attempts\<close>), the delay
  being added in seconds to the clock reading.
\<close>

theorem compute_backoff_power:
  "compute_backoff (PyInt base) n = base ^ nat (max n 0) \<and>
   (0 \<le> n \<longrightarrow> compute_backoff (PyInt 2) n = 2 ^ nat n) \<and>
   (m \<le> n \<longrightarrow> compute_backoff (PyInt 2) m \<le> compute_backoff (PyInt 2) n) \<and>
   (rc \<noteq> 0 \<and> get_job db i = Some cur \<and>
    int_of_cell (attempts cur) = Inr a \<and> int_of_cell (max_retries cur) = Inr mr \<and> a + 1 \<le> mr \<and>
    complete env db i base rc out err = (Inr (), db') \<longrightarrow>
      map_option next_run_at (get_job db' i) =
        Some (Some (t_retry env + 1000000 * compute_backoff (PyInt base) (a + 1))))"
proof (intro conjI impI)
  show "compute_backoff (PyInt base) n = base ^ nat (max n 0)"
    by (rule compute_backoff_int)
  show "compute_backoff (PyInt 2) n = 2 ^ nat n" if "0 \<le> n"
    using that by (simp add: compute_backoff_int max_def)
  show "compute_backoff (PyInt 2) m \<le> compute_backoff (PyInt 2) n" if "m \<le> n"
  proof -
    from that have "nat (max m 0) \<le> nat (max n 0)" by simp
    then have "(2::int) ^ nat (max m 0) \<le> 2 ^ nat (max n 0)"
      by (rule power_increasing) simp
    then show ?thesis by (simp only: compute_backoff_int)
  qed
  show "map_option next_run_at (get_job db' i) =
        Some (Some (t_retry env + 1000000 * compute_backoff (PyInt base) (a + 1)))"
    if h: "rc \<noteq> 0 \<and> get_job db i = Some cur \<and>
           int_of_cell (attempts cur) = Inr a \<and> int_of_cell (max_retries cur) = Inr mr \<and>
           a + 1 \<le> mr \<and> complete env db i base rc out err = (Inr (), db')"
  proof -
    from h complete_failure_Inr [of rc db i cur a mr env base out err db']
    obtain nr where u: "utcnow_plus_seconds (t_retry env) (compute_backoff (PyInt base) (a + 1)) = Inr nr"
      and db': "db' = db\<lparr>jobs := update_job i
                      (set_failed (a + 1) rc out err (elapsed_ms env) nr (t_done env))
                      (jobs db)\<rparr>"
      by auto
    from u have nr: "nr = t_retry env + 1000000 * compute_backoff (PyInt base) (a + 1)"
      by (rule utcnow_plus_seconds_Inr)
    from h have "get_job db' i =
        Some (set_failed (a + 1) rc out err (elapsed_ms env) nr (t_done env) cur)"
      unfolding db' by (simp add: get_job_update_same job_id_set_failed)
    then show ?thesis by (simp add: set_failed_def nr)
  qed
qed

text \<open>
  C5 at the counts 1 and 3, and at a first failure with base 2.
\<close>

theorem compute_backoff_power_witness:
  "compute_backoff (PyInt 2) 3 = 8 \<and>
   compute_backoff (PyInt 2) 1 \<le> compute_backoff (PyInt 2) 3 \<and>
   map_option next_run_at
     (get_job (snd (complete (env_of (Exited 1 [] [])) (one_held ''2'' (SqlInt 0) 3) (Some ''a'') 2 1
                      (Text []) (Text []))) (Some ''a''))
     = Some (Some 1790000002012001)"
proof -
  let ?cur = "held_job (SqlInt 0) 3"
  let ?env = "env_of (Exited 1 [] [])"
  let ?db' = "snd (complete ?env (one_held ''2'' (SqlInt 0) 3) (Some ''a'') 2 1 (Text []) (Text []))"
  have u: "utcnow_plus_seconds (t_retry ?env) (compute_backoff (PyInt 2) (0 + 1))
             = Inr 1790000002012001"
    by (simp add: env_of_fields retry_at_base_2)
  have "complete ?env (one_held ''2'' (SqlInt 0) 3) (Some ''a'') 2 1 (Text []) (Text [])
          = (Inr (), (one_held ''2'' (SqlInt 0) 3)\<lparr>jobs := update_job (Some ''a'')
                      (set_failed (0 + 1) 1 (Text []) (Text []) (elapsed_ms ?env) 1790000002012001
                         (t_done ?env))
                      (jobs (one_held ''2'' (SqlInt 0) 3))\<rparr>)"
    by (rule complete_failed [OF _ get_job_one_held _ _ _ u, where m = 3])
      (simp_all add: held_job_fields int_of_cell_SqlInt binds_def sqlite_int_def env_of_fields)
  then have c: "complete ?env (one_held ''2'' (SqlInt 0) 3) (Some ''a'') 2 1 (Text []) (Text [])
                  = (Inr (), ?db')"
    by simp
  have t: "t_retry ?env + 1000000 * compute_backoff (PyInt 2) (0 + 1) = 1790000002012001"
    by (simp add: env_of_fields compute_backoff_int)
  have ia: "int_of_cell (attempts ?cur) = Inr 0" and im: "int_of_cell (max_retries ?cur) = Inr 3"
    by (simp_all add: held_job_fields int_of_cell_SqlInt)
  from compute_backoff_power [where base = 2 and n = 3 and m = 1 and rc = 1
         and db = "one_held ''2'' (SqlInt 0) 3" and i = "Some ''a''" and cur = ?cur and env = ?env
         and a = 0 and mr = 3
         and out = "Text []" and err = "Text []" and db' = ?db'] c ia im t
       get_job_one_held [of "''2''" "SqlInt 0" 3]
  show ?thesis by simp
qed

text \<open>
  Claim C6 says that the backoff computation on the failure path never raises and falls
  back to base 2 for a non-numeric \<open>backoff_base\<close>. \<open>compute_backoff\<close> has that fallback,
  but \<open>run_job\<close> converts the configured value with \<open>int(...)\<close> before it calls it: with
  \<open>backoff_base\<close> configured as \<open>abc\<close>, \<open>run_job\<close> raises \<open>ValueError\<close> before the command
  is run, and the job stays in state processing.
\<close>

theorem run_job_nonnumeric_base:
  "compute_backoff (PyStr ''abc'') 1 = 2 \<and>
   fst (run_job (env_of (Exited 1 [] [])) (one_held ''abc'' (SqlInt 0) 3) ''w1'' (held_job (SqlInt 0) 3))
     = Inl ValueError \<and>
   get_job (snd (run_job (env_of (Exited 1 [] [])) (one_held ''abc'' (SqlInt 0) 3) ''w1''
                   (held_job (SqlInt 0) 3))) (Some ''a'')
     = Some (held_job (SqlInt 0) 3) \<and>
   state (held_job (SqlInt 0) 3) = Processing"
proof -
  have 1: "compute_backoff (PyStr ''abc'') 1 = 2"
    by (simp add: compute_backoff_def py_int_def int_of_str_abc)
  show ?thesis
    unfolding run_job_bad_base [OF config_one_held(1) int_of_str_abc]
    using 1 by (simp add: get_job_workers_update get_job_one_held held_job_fields)
qed

text \<open>
  Claim C7. For every database that respects the primary key: when the job with the
  given id exists and is dead, \<open>dlq_retry\<close> succeeds and resets it to pending with
  \<open>attempts = 0\<close> and \<open>next_run_at\<close> and \<open>last_error\<close> cleared (and \<open>updated_at\<close> set), leaving
  every other row as it is; when the id has no row or its row is in any other state,
  it fails (message \<open>not found in DLQ\<close>, exit status 1) and the jobs table is unchanged.
\<close>

theorem dlq_retry_only_dead:
  assumes pk: "pk_ok db"
  shows "(\<forall>cur. get_job db (Some i) = Some cur \<and> state cur = Dead \<longrightarrow>
            fst (dlq_retry db now i) = Inr () \<and>
            get_job (snd (dlq_retry db now i)) (Some i) =
              Some (cur\<lparr>state := Pending, attempts := SqlInt 0, next_run_at := None,
                        last_error := None, updated_at := now\<rparr>) \<and>
            (\<forall>k. k \<noteq> Some i \<longrightarrow> get_job (snd (dlq_retry db now i)) k = get_job db k) \<and>
            jobs (snd (dlq_retry db now i)) =
              map (\<lambda>j. if job_id j = Some i
                        then j\<lparr>state := Pending, attempts := SqlInt 0, next_run_at := None,
                               last_error := None, updated_at := now\<rparr>
                        else j) (jobs db)) \<and>
         ((\<forall>cur. get_job db (Some i) = Some cur \<longrightarrow> state cur \<noteq> Dead) \<longrightarrow>
            fst (dlq_retry db now i) = Inl (SystemExit 1) \<and>
            jobs (snd (dlq_retry db now i)) = jobs db)"
proof (intro conjI allI impI)
  fix cur
  assume h: "get_job db (Some i) = Some cur \<and> state cur = Dead"
  then have r: "dlq_retry db now i =
           (Inr (), (ensure_db db)\<lparr>jobs := update_job (Some i) (set_requeued now) (jobs db)\<rparr>)"
    using pk by (simp add: dlq_retry_dead)
  show "fst (dlq_retry db now i) = Inr ()" by (simp add: r)
  have e: "(ensure_db db)\<lparr>jobs := update_job (Some i) (set_requeued now) (jobs db)\<rparr>
             = (ensure_db db)\<lparr>jobs := update_job (Some i) (set_requeued now) (jobs (ensure_db db))\<rparr>"
    by (simp add: jobs_ensure_db)
  have "get_job (snd (dlq_retry db now i)) (Some i) = Some (set_requeued now cur)"
    unfolding r snd_conv e using h
    by (simp add: get_job_update_same job_id_set_requeued get_job_ensure_db)
  then show "get_job (snd (dlq_retry db now i)) (Some i) =
              Some (cur\<lparr>state := Pending, attempts := SqlInt 0, next_run_at := None,
                        last_error := None, updated_at := now\<rparr>)"
    by (simp add: set_requeued_def)
  show "get_job (snd (dlq_retry db now i)) k = get_job db k" if "k \<noteq> Some i" for k
    unfolding r snd_conv e using that
    by (simp add: get_job_update_other job_id_set_requeued get_job_ensure_db)
  show "jobs (snd (dlq_retry db now i)) =
              map (\<lambda>j. if job_id j = Some i
                        then j\<lparr>state := Pending, attempts := SqlInt 0, next_run_at := None,
                               last_error := None, updated_at := now\<rparr>
                        else j) (jobs db)"
    unfolding r snd_conv by (simp add: update_job_set_requeued)
next
  assume "\<forall>cur. get_job db (Some i) = Some cur \<longrightarrow> state cur \<noteq> Dead"
  with pk have r: "dlq_retry db now i = (Inl (SystemExit 1), ensure_db db)"
    by (rule dlq_retry_not_dead)
  show "fst (dlq_retry db now i) = Inl (SystemExit 1)" by (simp add: r)
  show "jobs (snd (dlq_retry db now i)) = jobs db" by (simp add: r jobs_ensure_db)
qed

text \<open>
  C7 at a dead job, which is requeued, and at a pending job and an unknown id, which are
  refused.
\<close>

theorem dlq_retry_only_dead_witness:
  "pk_ok one_dead \<and>
   fst (dlq_retry one_dead 1790000000999000 ''a'') = Inr () \<and>
   map_option state (get_job (snd (dlq_retry one_dead 1790000000999000 ''a'')) (Some ''a''))
     = Some Pending \<and>
   map_option attempts (get_job (snd (dlq_retry one_dead 1790000000999000 ''a'')) (Some ''a''))
     = Some (SqlInt 0) \<and>
   pk_ok two_jobs \<and>
   fst (dlq_retry two_jobs 1790000000999000 ''a'') = Inl (SystemExit 1) \<and>
   fst (dlq_retry two_jobs 1790000000999000 ''zz'') = Inl (SystemExit 1) \<and>
   jobs (snd (dlq_retry two_jobs 1790000000999000 ''a'')) = jobs two_jobs"
proof -
  let ?cur = "(inserted_row (Some ''a'') ''exit 1'' Dead (SqlInt 1) (SqlInt 0)
                  1790000000000000 1790000000012000 0)
                 \<lparr>last_error := Some ''Exit code 1''\<rparr>"
  have pk1: "pk_ok one_dead"
    by (simp add: pk_ok_def one_dead_def inserted_row_def)
  have pk2: "pk_ok two_jobs"
    by (simp add: pk_ok_def two_jobs_def inserted_row_def)
  have g1: "get_job one_dead (Some ''a'') = Some ?cur \<and> state ?cur = Dead"
    by (simp add: get_job_def one_dead_def inserted_row_def)
  have g2: "\<forall>cur. get_job two_jobs (Some ''a'') = Some cur \<longrightarrow> state cur \<noteq> Dead"
    by (simp add: get_job_def two_jobs_def inserted_row_def)
  have g3: "\<forall>cur. get_job two_jobs (Some ''zz'') = Some cur \<longrightarrow> state cur \<noteq> Dead"
    by (simp add: get_job_def two_jobs_def inserted_row_def)
  note t1 = dlq_retry_only_dead [OF pk1, where i = "''a''" and now = 1790000000999000]
  note t2 = dlq_retry_only_dead [OF pk2, where i = "''a''" and now = 1790000000999000]
  note t3 = dlq_retry_only_dead [OF pk2, where i = "''zz''" and now = 1790000000999000]
  note s1 = t1 [THEN conjunct1, THEN spec, THEN mp, OF g1]
  from s1 [THEN conjunct1]
  have a: "fst (dlq_retry one_dead 1790000000999000 ''a'') = Inr ()" .
  from s1 [THEN conjunct2, THEN conjunct1]
  have b: "get_job (snd (dlq_retry one_dead 1790000000999000 ''a'')) (Some ''a'') =
              Some (?cur\<lparr>state := Pending, attempts := SqlInt 0, next_run_at := None,
                        last_error := None, updated_at := 1790000000999000\<rparr>)" .
  from t2 [THEN conjunct2, THEN mp, OF g2]
  have c: "fst (dlq_retry two_jobs 1790000000999000 ''a'') = Inl (SystemExit 1)"
    and d: "jobs (snd (dlq_retry two_jobs 1790000000999000 ''a'')) = jobs two_jobs"
    by simp_all
  from t3 [THEN conjunct2, THEN mp, OF g3]
  have e: "fst (dlq_retry two_jobs 1790000000999000 ''zz'') = Inl (SystemExit 1)"
    by simp
  from pk1 pk2 a b c d e show ?thesis by simp
qed

text \<open>
  Claim C8, as amended. The execution step of \<open>run_job\<close> turns a completed process into
  its return code and its two streams; when \<open>subprocess.run\<close> raises \<open>TimeoutExpired\<close>
  and the \<open>stderr\<close> it carries is absent, empty or text, the result is return code
  \<open>-1\<close> with \<open>TIMEOUT after <n>s\<close> appended to that \<open>stderr\<close>; any other exception of
  \<open>subprocess.run\<close> leaves the step, and with it \<open>run_job\<close>, as raised.
\<close>

theorem execute_outcomes:
  "(sh env cmd (if t = 0 then None else Some t) = Exited rc out err \<longrightarrow>
      execute env cmd t = Inr (rc, Text out, Text err)) \<and>
   (sh env cmd (if t = 0 then None else Some t) = TimeoutExpired eout eerr \<and>
    or_empty eerr = Text s \<longrightarrow>
      execute env cmd t =
        Inr (- 1, or_empty eout, Text (s @ ''TIMEOUT after '' @ str_int t @ ''s''))) \<and>
   (sh env cmd (if t = 0 then None else Some t) = Raised e \<longrightarrow> execute env cmd t = Inl e)"
  by (simp add: execute_def add_str_def)

text \<open>
  C8 at a process that exits with code 3, at a timeout of 5 seconds and at an \<open>OSError\<close>.
\<close>

theorem execute_outcomes_witness:
  "execute (env_of (Exited 3 ''out'' ''err'')) ''exit 3'' 0 = Inr (3, Text ''out'', Text ''err'') \<and>
   execute (env_of (TimeoutExpired NoCapture NoCapture)) ''sleep 9'' 5
     = Inr (- 1, Text [], Text ''TIMEOUT after 5s'') \<and>
   execute (env_of (Raised OSError)) ''exit 3'' 0 = Inl OSError"
proof -
  have s5: "str_int 5 = ''5''" by (simp add: str_int_def digit_char_def)
  have 1: "sh (env_of (Exited 3 ''out'' ''err'')) ''exit 3'' (if (0::int) = 0 then None else Some 0)
             = Exited 3 ''out'' ''err''"
    by (simp add: env_of_def)
  have 2: "sh (env_of (TimeoutExpired NoCapture NoCapture)) ''sleep 9'' (if (5::int) = 0 then None else Some 5)
             = TimeoutExpired NoCapture NoCapture \<and> or_empty NoCapture = Text []"
    by (simp add: env_of_def or_empty_def)
  have 3: "sh (env_of (Raised OSError)) ''exit 3'' (if (0::int) = 0 then None else Some 0) = Raised OSError"
    by (simp add: env_of_def)
  from 1 execute_outcomes [where env = "env_of (Exited 3 ''out'' ''err'')" and cmd = "''exit 3''"
      and t = 0 and rc = 3 and out = "''out''" and err = "''err''"]
  have a: "execute (env_of (Exited 3 ''out'' ''err'')) ''exit 3'' 0 = Inr (3, Text ''out'', Text ''err'')"
    by blast
  from 2 execute_outcomes [where env = "env_of (TimeoutExpired NoCapture NoCapture)"
      and cmd = "''sleep 9''" and t = 5 and eout = NoCapture and eerr = NoCapture and s = "[]"]
  have b: "execute (env_of (TimeoutExpired NoCapture NoCapture)) ''sleep 9'' 5
     = Inr (- 1, or_empty NoCapture, Text ([] @ ''TIMEOUT after '' @ str_int 5 @ ''s''))"
    by blast
  from 3 execute_outcomes [where env = "env_of (Raised OSError)" and cmd = "''exit 3''"
      and t = 0 and e = OSError]
  have c: "execute (env_of (Raised OSError)) ''exit 3'' 0 = Inl OSError"
    by blast
  from a b c show ?thesis by (simp add: or_empty_def s5)
qed

text \<open>
  C8 as stated fails: a command whose output is not valid text makes
  \<open>subprocess.run(..., text=True)\<close> raise \<open>UnicodeDecodeError\<close>, which the execution step
  does not catch, so \<open>run_job\<close> raises it to the worker loop.
\<close>

theorem execute_outcomes_counterexample:
  "execute (env_of (Raised UnicodeDecodeError)) ''cat /bin/sh'' 0 = Inl UnicodeDecodeError \<and>
   fst (run_job (env_of (Raised UnicodeDecodeError)) (one_held ''2'' (SqlInt 0) 3) ''w1''
          ((held_job (SqlInt 0) 3)\<lparr>command := ''cat /bin/sh''\<rparr>)) = Inl UnicodeDecodeError"
proof -
  have e: "execute (env_of (Raised UnicodeDecodeError)) ''cat /bin/sh'' 0 = Inl UnicodeDecodeError"
    by (simp add: execute_def env_of_def)
  have "execute (env_of (Raised UnicodeDecodeError))
          (command ((held_job (SqlInt 0) 3)\<lparr>command := ''cat /bin/sh''\<rparr>)) 0 = Inl UnicodeDecodeError"
    using e by simp
  from run_job_raised [OF config_one_held(1) int_of_str_2 config_one_held(2) int_of_str_0 this] e
  show ?thesis by simp
qed

text \<open>
  Claim C9, as amended. Every command of the front end other than the requeue leaves
  every existing job row as it is, so the \<open>state\<close> and \<open>locked_by\<close> of an existing job are
  changed only by \<open>acquire_job\<close>, \<open>run_job\<close> and \<open>dlq_retry\<close>; the only row such a command
  can add is the one job submission inserts, with \<open>locked_by\<close> null and with the state
  that the submitted object names, pending when it names none.
\<close>

theorem main_db_keeps_rows:
  "(\<forall>i. c \<noteq> DlqRetry i) \<longrightarrow>
     (\<exists>new. jobs (main_db e db c) = jobs db @ new \<and> length new \<le> 1 \<and>
            (\<forall>j \<in> set new.
               locked_by j = None \<and>
               (\<exists>job prio. c = Enqueue job prio \<and>
                   Option.bind (stored (setdefault (j_state job) ''pending'')) state_of_string
                     = Some (state j))))"
proof (cases c)
  case (Enqueue job prio)
  from enqueue_job_jobs [of "ensure_db db" job prio "clock e" "new_uuid e"]
  obtain new where "jobs (snd (enqueue_job (ensure_db db) job prio (clock e) (new_uuid e)))
                      = jobs db @ new" "length new \<le> 1"
     "\<forall>j \<in> set new. locked_by j = None \<and>
            Option.bind (stored (setdefault (j_state job) ''pending'')) state_of_string
              = Some (state j)"
    unfolding jobs_ensure_db by blast
  with Enqueue show ?thesis by simp
next
  case (WorkerStart n)
  then show ?thesis by (simp add: spawn_workers_def Let_def jobs_ensure_db)
next
  case WorkerStop
  then show ?thesis by (simp add: stop_workers_def Let_def jobs_ensure_db)
next
  case Status
  then show ?thesis by (simp add: jobs_ensure_db)
next
  case (ListJobs st n)
  then show ?thesis by (simp add: jobs_ensure_db)
next
  case (DlqList n)
  then show ?thesis by (simp add: jobs_ensure_db)
next
  case (DlqRetry i)
  then show ?thesis by simp
next
  case (ConfigSet k v)
  then show ?thesis by (simp add: set_config_def jobs_ensure_db)
next
  case (ConfigGet k)
  then show ?thesis by (simp add: jobs_ensure_db)
qed

text \<open>
  C9 at a \<open>config set\<close> on two jobs and at a submission into the empty database.
\<close>

theorem main_db_keeps_rows_witness:
  "jobs (main_db cli_env0 two_jobs (ConfigSet ''backoff_base'' ''3'')) = jobs two_jobs \<and>
   length (jobs (main_db cli_env0 empty_db (Enqueue done_json 0))) = 1 \<and>
   map locked_by (jobs (main_db cli_env0 empty_db (Enqueue done_json 0))) = [None]"
proof -
  from main_db_keeps_rows [of "ConfigSet ''backoff_base'' ''3''" cli_env0 two_jobs]
  have a: "jobs (main_db cli_env0 two_jobs (ConfigSet ''backoff_base'' ''3'')) = jobs two_jobs"
    by simp
  from main_db_keeps_rows [of "Enqueue done_json 0" cli_env0 empty_db]
  obtain new where n: "jobs (main_db cli_env0 empty_db (Enqueue done_json 0)) = jobs empty_db @ new"
    and l: "\<forall>j \<in> set new. locked_by j = None"
    by blast
  from n have "new = [inserted_row (Some ''x'') ''true'' Completed (SqlInt 0) (SqlInt 3)
        1790000000000000 1790000000000000 0]"
    unfolding main_db_done_json by (simp add: empty_db_def)
  with n l a show ?thesis
    unfolding main_db_done_json by (simp add: empty_db_def)
qed

text \<open>
  C9 as stated fails: job submission does choose the state. The object
  \<open>{"id": "x", "command": "true", "state": "completed"}\<close> creates job \<open>x\<close> in state
  completed.
\<close>

theorem main_db_keeps_rows_counterexample:
  "map state (jobs (main_db cli_env0 empty_db (Enqueue done_json 0))) = [Completed] \<and>
   map job_id (jobs (main_db cli_env0 empty_db (Enqueue done_json 0))) = [Some ''x'']"
  unfolding main_db_done_json by (simp add: inserted_row_def)

text \<open>
  Claim C10. Every call of \<open>spawn_workers\<close> leaves the shutdown flag at \<open>0\<close>, and its
  write of the flag comes first, before the start of any worker; in particular the flag
  that \<open>stop_workers\<close> has set to \<open>1\<close> is \<open>0\<close> again after the next \<open>spawn_workers\<close>.
\<close>

theorem spawn_workers_resets_shutdown:
  "control (snd (spawn_workers pid hex db count)) ''shutdown'' = Some ''0'' \<and>
   fst (spawn_workers pid hex db count) =
     SetControl ''shutdown'' ''0''
       # map (\<lambda>i. Spawn (worker_id_of pid hex i)) [0 ..< nat count]
       @ [WriteFile ''.workers.supervisor.pid'', WriteFile ''.workers.pids''] \<and>
   control (snd (stop_workers pids db)) ''shutdown'' = Some ''1'' \<and>
   control (snd (spawn_workers pid hex (snd (stop_workers pids db)) count)) ''shutdown'' = Some ''0''"
proof (intro conjI)
  show "control (snd (spawn_workers pid hex db count)) ''shutdown'' = Some ''0''"
    by (rule shutdown_spawn_workers)
  show "fst (spawn_workers pid hex db count) =
     SetControl ''shutdown'' ''0''
       # map (\<lambda>i. Spawn (worker_id_of pid hex i)) [0 ..< nat count]
       @ [WriteFile ''.workers.supervisor.pid'', WriteFile ''.workers.pids'']"
    by (simp add: spawn_workers_def Let_def)
  show "control (snd (stop_workers pids db)) ''shutdown'' = Some ''1''"
    by (rule shutdown_stop_workers)
  show "control (snd (spawn_workers pid hex (snd (stop_workers pids db)) count)) ''shutdown'' = Some ''0''"
    by (rule shutdown_spawn_workers)
qed

end
